theory Spec2Isabelle
  imports Main "HOL-Library.Word" "HOL-Library.AList"
begin

section \<open>Registry state machine (registry.go)\<close>

subsection \<open>Data model\<close>

type_synonym uint64 = "64 word"

text \<open>The error values declared at the top of registry.go.\<close>

datatype error =
    ErrUnsupportedRequest
  | ErrInvalidParam
  | ErrNoSuchHive
  | ErrDuplicateHive
  | ErrNoSuchBee
  | ErrDuplicateBee

text \<open>
  A call of \<^verbatim>\<open>glog.Fatalf\<close> ends the process: the function never returns.
  \<open>Fatal\<close> is that outcome, \<open>Ret v\<close> a normal return of \<open>v\<close>.
\<close>

datatype 'a outcome = Fatal | Ret 'a

text \<open>
  Modelled from the spec: the type \<^verbatim>\<open>Colony\<close> and its methods (colony.go) are not
  among the sources. The spec gives \<^verbatim>\<open>Colony {Leader: u64, Followers: [u64]}\<close>,
  "\<^verbatim>\<open>IsNil\<close> iff Leader==0", a colony as "one leader + followers", and registry.go
  writes the nil colony as the zero value \<^verbatim>\<open>Colony{}\<close>.
\<close>

record Colony =
  Leader :: uint64
  Followers :: "uint64 list"

text \<open>Modelled from the spec: the zero value \<^verbatim>\<open>Colony{}\<close>, the nil colony.\<close>

definition Colony_zero :: Colony where
  "Colony_zero = \<lparr>Leader = 0, Followers = []\<rparr>"

text \<open>Modelled from the spec: \<^verbatim>\<open>Colony.IsNil\<close>, "\<^verbatim>\<open>IsNil\<close> iff Leader==0".\<close>

definition Colony_IsNil :: "Colony \<Rightarrow> bool" where
  "Colony_IsNil c \<longleftrightarrow> Leader c = 0"

text \<open>
  Modelled from the spec: \<^verbatim>\<open>Colony.Contains\<close>; a colony contains its leader and its
  followers.
\<close>

definition Colony_Contains :: "Colony \<Rightarrow> uint64 \<Rightarrow> bool" where
  "Colony_Contains c b \<longleftrightarrow> Leader c = b \<or> b \<in> set (Followers c)"

text \<open>
  Modelled from the spec: \<^verbatim>\<open>Colony.Equals\<close>; the spec speaks of a colony that "differs"
  from another, taken here as a different leader or different followers.
\<close>

definition Colony_Equals :: "Colony \<Rightarrow> Colony \<Rightarrow> bool" where
  "Colony_Equals c d \<longleftrightarrow> c = d"

text \<open>
  \<^verbatim>\<open>HiveInfo\<close> is built in registry.go as \<^verbatim>\<open>HiveInfo{ID: .., Addr: ..}\<close> and by
  conversion from \<^verbatim>\<open>raft.NodeInfo\<close>, which has exactly these two fields.
\<close>

record HiveInfo =
  hive_ID :: uint64
  hive_Addr :: string

record BeeInfo =
  bee_ID :: uint64
  bee_Hive :: uint64
  bee_App :: string
  bee_Colony :: Colony
  bee_Detached :: bool

text \<open>
  Modelled from the spec: the constant \<^verbatim>\<open>Nil\<close> that \<^verbatim>\<open>addBee\<close> compares a bee id with
  is declared outside the sources; the spec calls such an id zero.
\<close>

definition Nil_ID :: uint64 where
  "Nil_ID = 0"

type_synonym Cell = string
type_synonym MappedCells = "Cell list"

text \<open>
  Modelled from the spec: \<^verbatim>\<open>cellStore\<close> (cells.go) is not among the sources.
  The spec describes it as "for each \<^verbatim>\<open>(App, Cell)\<close> key, the \<^verbatim>\<open>Colony\<close> owning it";
  registry.go calls \<^verbatim>\<open>colony(app, k)\<close>, \<^verbatim>\<open>assign(app, k, c)\<close>, \<^verbatim>\<open>cells(bee)\<close> and
  \<^verbatim>\<open>updateColony(app, old, new)\<close> on it. It is an association list, a Go map having
  one entry per key, so that \<^verbatim>\<open>cells\<close> can be enumerated.
\<close>

type_synonym cellStore = "((string \<times> Cell) \<times> Colony) list"

text \<open>Modelled from the spec: \<^verbatim>\<open>newCellStore\<close>, the store with no cell.\<close>

definition newCellStore :: cellStore where
  "newCellStore = []"

text \<open>
  Modelled from the spec: \<^verbatim>\<open>cellStore.colony\<close>, the colony owning \<^verbatim>\<open>(app, k)\<close>; \<open>None\<close>
  is the result \<^verbatim>\<open>ok == false\<close>.
\<close>

definition cellStore_colony :: "cellStore \<Rightarrow> string \<Rightarrow> Cell \<Rightarrow> Colony option" where
  "cellStore_colony s app k = map_of s (app, k)"

text \<open>Modelled from the spec: \<^verbatim>\<open>cellStore.assign\<close> makes \<open>c\<close> the owner of \<^verbatim>\<open>(app, k)\<close>.\<close>

definition cellStore_assign :: "cellStore \<Rightarrow> string \<Rightarrow> Cell \<Rightarrow> Colony \<Rightarrow> cellStore" where
  "cellStore_assign s app k c = AList.update (app, k) c s"

text \<open>
  Modelled from the spec: \<^verbatim>\<open>cellStore.cells\<close>, the cells owned by a bee ("all cells owned
  by From.Leader"): the cells whose owning colony has the bee as leader.
\<close>

definition cellStore_cells :: "cellStore \<Rightarrow> uint64 \<Rightarrow> MappedCells" where
  "cellStore_cells s bee = map (snd \<circ> fst) (filter (\<lambda>e. Leader (snd e) = bee) s)"

text \<open>
  Modelled from the spec: \<^verbatim>\<open>cellStore.updateColony\<close>, "re-assign each cell currently
  owned by Old in CellStore to New". The spec gives the app argument no role and names no
  failure, so the result is always \<open>Inr\<close>.
\<close>

definition cellStore_updateColony ::
  "cellStore \<Rightarrow> string \<Rightarrow> Colony \<Rightarrow> Colony \<Rightarrow> error + cellStore" where
  "cellStore_updateColony s app oldc newc =
     Inr (map (\<lambda>e. if Colony_Equals (snd e) oldc then (fst e, newc) else e) s)"

text \<open>The requests that \<^verbatim>\<open>registry.Apply\<close> switches on; \<open>unknownRequest\<close> is any other value.\<close>

datatype request =
    noOp
  | newHiveID string
  | newBeeID
  | addBee BeeInfo
  | delBee uint64
  | moveBee uint64 uint64 uint64
  | updateColony Colony Colony
  | lockMappedCell Colony string MappedCells
  | transferCells Colony Colony
  | unknownRequest

text \<open>
  The first result of \<^verbatim>\<open>Apply\<close> is an \<^verbatim>\<open>interface{}\<close>: nil (\<open>None\<close>), an id, or a
  colony.
\<close>

datatype reply = ReplyID uint64 | ReplyColony Colony

record registry =
  name :: string
  HiveID :: uint64
  BeeID :: uint64
  Hives :: "(uint64 \<times> HiveInfo) list"
  Bees :: "uint64 \<rightharpoonup> BeeInfo"
  Store :: cellStore

subsection \<open>Operations\<close>

definition newRegistry :: "string \<Rightarrow> registry" where
  "newRegistry nm =
     \<lparr>name = nm, HiveID = 1, BeeID = 0, Hives = [], Bees = Map.empty, Store = newCellStore\<rparr>"

text \<open>
  \<^verbatim>\<open>addHive\<close> ranges over the registered hives and is fatal when another hive already has
  the address; otherwise it stores the hive under its id. Its error result is always nil.
\<close>

definition registry_addHive :: "registry \<Rightarrow> HiveInfo \<Rightarrow> registry outcome" where
  "registry_addHive r info =
     (if list_ex (\<lambda>e. hive_Addr (snd e) = hive_Addr info \<and> hive_ID (snd e) \<noteq> hive_ID info)
           (Hives r)
      then Fatal
      else Ret (r\<lparr>Hives := AList.update (hive_ID info) info (Hives r)\<rparr>))"

definition registry_delHive :: "registry \<Rightarrow> uint64 \<Rightarrow> registry" where
  "registry_delHive r i =
     (if map_of (Hives r) i = None then r else r\<lparr>Hives := AList.delete i (Hives r)\<rparr>)"

definition registry_newHiveID :: "registry \<Rightarrow> string \<Rightarrow> (uint64 \<times> registry) outcome" where
  "registry_newHiveID r addr =
     (let r1 = r\<lparr>HiveID := HiveID r + 1\<rparr> in
      if addr \<noteq> [] then
        (case registry_addHive r1 \<lparr>hive_ID = HiveID r1, hive_Addr = addr\<rparr> of
           Fatal \<Rightarrow> Fatal
         | Ret r2 \<Rightarrow> Ret (HiveID r2, r2))
      else Ret (HiveID r1, r1))"

definition registry_newBeeID :: "registry \<Rightarrow> uint64 \<times> registry" where
  "registry_newBeeID r = (let r1 = r\<lparr>BeeID := BeeID r + 1\<rparr> in (BeeID r1, r1))"

definition registry_addBee :: "registry \<Rightarrow> BeeInfo \<Rightarrow> (error option \<times> registry) outcome" where
  "registry_addBee r info =
     (if bee_ID info = Nil_ID then Fatal
      else if Bees r (bee_ID info) \<noteq> None then Ret (Some ErrDuplicateBee, r)
      else if BeeID r < bee_ID info then Fatal
      else Ret (None, r\<lparr>Bees := (Bees r)(bee_ID info \<mapsto> info)\<rparr>))"

definition registry_delBee :: "registry \<Rightarrow> uint64 \<Rightarrow> error option \<times> registry" where
  "registry_delBee r i =
     (if Bees r i = None then (Some ErrNoSuchBee, r)
      else (None, r\<lparr>Bees := (Bees r)(i := None)\<rparr>))"

definition registry_moveBee ::
  "registry \<Rightarrow> uint64 \<Rightarrow> uint64 \<Rightarrow> uint64 \<Rightarrow> error option \<times> registry" where
  "registry_moveBee r i fromHive toHive =
     (case Bees r i of
        None \<Rightarrow> (Some ErrNoSuchBee, r)
      | Some b \<Rightarrow>
          if bee_Hive b \<noteq> fromHive then (Some ErrInvalidParam, r)
          else if fromHive = toHive then (None, r)
          else (None, r\<lparr>Bees := (Bees r)(i \<mapsto> b\<lparr>bee_Hive := toHive\<rparr>)\<rparr>))"

definition registry_mustFindBee :: "registry \<Rightarrow> uint64 \<Rightarrow> BeeInfo outcome" where
  "registry_mustFindBee r i = (case Bees r i of None \<Rightarrow> Fatal | Some info \<Rightarrow> Ret info)"

text \<open>\<open>setColony r i c\<close> is the pattern \<^verbatim>\<open>b = r.mustFindBee(i); b.Colony = c; r.Bees[i] = b\<close>.\<close>

definition setColony :: "registry \<Rightarrow> uint64 \<Rightarrow> Colony \<Rightarrow> registry outcome" where
  "setColony r i c =
     (case registry_mustFindBee r i of
        Fatal \<Rightarrow> Fatal
      | Ret b \<Rightarrow> Ret (r\<lparr>Bees := (Bees r)(i \<mapsto> b\<lparr>bee_Colony := c\<rparr>)\<rparr>))"

text \<open>The loop over \<^verbatim>\<open>up.Old.Followers\<close>.\<close>

fun clearOldFollowers :: "Colony \<Rightarrow> uint64 list \<Rightarrow> registry \<Rightarrow> registry outcome" where
  "clearOldFollowers newc [] r = Ret r"
| "clearOldFollowers newc (f # fs) r =
     (if \<not> Colony_Contains newc f then
        (case setColony r f Colony_zero of
           Fatal \<Rightarrow> Fatal
         | Ret r1 \<Rightarrow> clearOldFollowers newc fs r1)
      else clearOldFollowers newc fs r)"

text \<open>The loop over \<^verbatim>\<open>up.New.Followers\<close>.\<close>

fun setNewFollowers :: "Colony \<Rightarrow> uint64 list \<Rightarrow> registry \<Rightarrow> registry outcome" where
  "setNewFollowers newc [] r = Ret r"
| "setNewFollowers newc (f # fs) r =
     (case setColony r f newc of
        Fatal \<Rightarrow> Fatal
      | Ret r1 \<Rightarrow> setNewFollowers newc fs r1)"

definition updateOldLeader :: "Colony \<Rightarrow> Colony \<Rightarrow> registry \<Rightarrow> registry outcome" where
  "updateOldLeader oldc newc r =
     (if Leader oldc \<noteq> Leader newc then
        setColony r (Leader oldc)
          (if Colony_Contains newc (Leader oldc) then newc else Colony_zero)
      else Ret r)"

definition registry_updateColony ::
  "registry \<Rightarrow> Colony \<Rightarrow> Colony \<Rightarrow> (error option \<times> registry) outcome" where
  "registry_updateColony r oldc newc =
     (if Colony_IsNil newc \<or> Colony_IsNil oldc then Ret (Some ErrInvalidParam, r)
      else
        case registry_mustFindBee r (Leader newc) of
          Fatal \<Rightarrow> Fatal
        | Ret b \<Rightarrow>
           (case cellStore_updateColony (Store r) (bee_App b) oldc newc of
              Inl err \<Rightarrow> Ret (Some err, r)
            | Inr s \<Rightarrow>
               (case updateOldLeader oldc newc (r\<lparr>Store := s\<rparr>) of
                  Fatal \<Rightarrow> Fatal
                | Ret r1 \<Rightarrow>
                   (case clearOldFollowers newc (Followers oldc) r1 of
                      Fatal \<Rightarrow> Fatal
                    | Ret r2 \<Rightarrow>
                       (case setNewFollowers newc (Followers newc) r2 of
                          Fatal \<Rightarrow> Fatal
                        | Ret r3 \<Rightarrow>
                           (case setColony r3 (Leader newc) newc of
                              Fatal \<Rightarrow> Fatal
                            | Ret r4 \<Rightarrow> Ret (None, r4)))))))"

text \<open>
  The first loop of \<^verbatim>\<open>lock\<close>, over \<^verbatim>\<open>l.Cells\<close>. Its state is \<^verbatim>\<open>locked\<close>, \<^verbatim>\<open>openk\<close>,
  the colony \<^verbatim>\<open>l.Colony\<close> (overwritten by the owner found) and the cell store.
\<close>

fun lockScan ::
  "string \<Rightarrow> MappedCells \<Rightarrow> bool \<times> MappedCells \<times> Colony \<times> cellStore \<Rightarrow>
   (bool \<times> MappedCells \<times> Colony \<times> cellStore) outcome" where
  "lockScan app [] st = Ret st"
| "lockScan app (k # ks) (locked, openk, col, s) =
     (case cellStore_colony s app k of
        None \<Rightarrow>
          if locked then lockScan app ks (locked, openk, col, cellStore_assign s app k col)
          else lockScan app ks (locked, openk @ [k], col, s)
      | Some c \<Rightarrow>
          if locked \<and> \<not> Colony_Equals c col then Fatal
          else lockScan app ks (True, openk, c, s))"

text \<open>The loops \<^verbatim>\<open>for _, k := range ks { r.Store.assign(app, k, c) }\<close>.\<close>

definition assignAll :: "string \<Rightarrow> Colony \<Rightarrow> MappedCells \<Rightarrow> cellStore \<Rightarrow> cellStore" where
  "assignAll app c ks s = foldl (\<lambda>s' k. cellStore_assign s' app k c) s ks"

definition registry_lock ::
  "registry \<Rightarrow> Colony \<Rightarrow> string \<Rightarrow> MappedCells \<Rightarrow> (Colony \<times> error option \<times> registry) outcome" where
  "registry_lock r col app cells =
     (if Leader col = 0 then Ret (Colony_zero, Some ErrInvalidParam, r)
      else
        case lockScan app cells (False, [], col, Store r) of
          Fatal \<Rightarrow> Fatal
        | Ret (locked, openk, col', s) \<Rightarrow>
            if locked then Ret (col', None, r\<lparr>Store := assignAll app col' openk s\<rparr>)
            else Ret (col', None, r\<lparr>Store := assignAll app col' cells s\<rparr>))"

definition registry_transfer :: "registry \<Rightarrow> Colony \<Rightarrow> Colony \<Rightarrow> error option \<times> registry" where
  "registry_transfer r fromc toc =
     (case Bees r (Leader fromc) of
        None \<Rightarrow> (Some ErrNoSuchBee, r)
      | Some i \<Rightarrow>
          let keys = cellStore_cells (Store r) (Leader fromc) in
          if length keys = 0 then (Some ErrInvalidParam, r)
          else (None, r\<lparr>Store := assignAll (bee_App i) toc keys (Store r)\<rparr>))"

text \<open>\<^verbatim>\<open>Apply\<close>: the reply, the error and the registry after the request.\<close>

definition registry_Apply ::
  "registry \<Rightarrow> request \<Rightarrow> (reply option \<times> error option \<times> registry) outcome" where
  "registry_Apply r req =
     (case req of
        noOp \<Rightarrow> Ret (None, None, r)
      | newHiveID addr \<Rightarrow>
          (case registry_newHiveID r addr of
             Fatal \<Rightarrow> Fatal
           | Ret (i, r') \<Rightarrow> Ret (Some (ReplyID i), None, r'))
      | newBeeID \<Rightarrow> (case registry_newBeeID r of (i, r') \<Rightarrow> Ret (Some (ReplyID i), None, r'))
      | addBee info \<Rightarrow>
          (case registry_addBee r info of
             Fatal \<Rightarrow> Fatal
           | Ret (err, r') \<Rightarrow> Ret (None, err, r'))
      | delBee i \<Rightarrow> (case registry_delBee r i of (err, r') \<Rightarrow> Ret (None, err, r'))
      | moveBee i fromHive toHive \<Rightarrow>
          (case registry_moveBee r i fromHive toHive of (err, r') \<Rightarrow> Ret (None, err, r'))
      | updateColony oldc newc \<Rightarrow>
          (case registry_updateColony r oldc newc of
             Fatal \<Rightarrow> Fatal
           | Ret (err, r') \<Rightarrow> Ret (None, err, r'))
      | lockMappedCell col app cells \<Rightarrow>
          (case registry_lock r col app cells of
             Fatal \<Rightarrow> Fatal
           | Ret (c, err, r') \<Rightarrow> Ret (Some (ReplyColony c), err, r'))
      | transferCells fromc toc \<Rightarrow>
          (case registry_transfer r fromc toc of (err, r') \<Rightarrow> Ret (None, err, r'))
      | unknownRequest \<Rightarrow> Ret (None, Some ErrUnsupportedRequest, r))"

section \<open>Raft node (the newer variant and raft/node.go)\<close>

subsection \<open>Data model\<close>

type_synonym bytes = "8 word list"

record NodeInfo =
  ni_ID :: uint64
  ni_Addr :: string

text \<open>
  The types of the Raft engine's wire format that the node reads: an entry has a type, an
  index and data; a conf change has an id, a type, a node id and a context. The type of a
  conf change is an integer enumeration, of which the node names two values.
\<close>

datatype EntryType = EntryNormal | EntryConfChange | EntryOtherType

record Entry =
  e_Type :: EntryType
  e_Index :: uint64
  e_Data :: bytes

datatype ConfChangeType = ConfChangeAddNode | ConfChangeRemoveNode | ConfChangeOtherType

record ConfChange =
  cc_ID :: uint64
  cc_Type :: ConfChangeType
  cc_NodeID :: uint64
  cc_Context :: bytes

record ConfState =
  Nodes :: "uint64 list"

text \<open>\<^verbatim>\<open>etcdraft.None\<close> is the engine's name for the node id zero.\<close>

definition etcdraft_None :: uint64 where
  "etcdraft_None = 0"

record RequestID =
  rid_NodeID :: uint64
  rid_Seq :: uint64

text \<open>
  The data of a request is an \<^verbatim>\<open>interface{}\<close>: \<open>None\<close> is nil. The data of a response
  likewise, and its error is nil or an error of the Store.
\<close>

record 'd Request =
  req_ID :: RequestID
  req_Data :: "'d option"

record ('r, 'e) Response =
  res_ID :: RequestID
  res_Data :: "'r option"
  res_Err :: "'e option"

text \<open>
  Modelled from the spec: the rendezvous \<^verbatim>\<open>line\<close> (raft/line.go) is not among the
  sources. The spec: a map keyed by \<^verbatim>\<open>RequestID\<close> whose value is a single-slot reply
  channel; \<^verbatim>\<open>wait(id)\<close> inserts a fresh single-slot channel and returns it;
  \<^verbatim>\<open>call(response)\<close> looks up \<^verbatim>\<open>response.ID\<close>, if present delivers the response to the
  channel and removes the entry, if absent drops it; \<^verbatim>\<open>cancel(id)\<close> removes the entry if
  present. A channel is a number; \<open>chans\<close> holds the value buffered in each channel.
\<close>

type_synonym chan = nat

record ('r, 'e) line =
  reqs :: "RequestID \<rightharpoonup> chan"
  chans :: "chan \<rightharpoonup> ('r, 'e) Response"
  nextChan :: chan

text \<open>Modelled from the spec: \<^verbatim>\<open>line.init\<close>, the line on which nothing waits.\<close>

definition line_init :: "('r, 'e) line" where
  "line_init = \<lparr>reqs = Map.empty, chans = Map.empty, nextChan = 0\<rparr>"

text \<open>Modelled from the spec: \<^verbatim>\<open>line.wait\<close> inserts a fresh channel for the id and returns it.\<close>

definition line_wait :: "('r, 'e) line \<Rightarrow> RequestID \<Rightarrow> chan \<times> ('r, 'e) line" where
  "line_wait l i =
     (nextChan l, l\<lparr>reqs := (reqs l)(i \<mapsto> nextChan l), nextChan := Suc (nextChan l)\<rparr>)"

text \<open>
  Modelled from the spec: \<^verbatim>\<open>line.call\<close> delivers the response to the channel waiting for
  its id and removes the entry; with no entry the response is dropped.
\<close>

definition line_call :: "('r, 'e) line \<Rightarrow> ('r, 'e) Response \<Rightarrow> ('r, 'e) line" where
  "line_call l res =
     (case reqs l (res_ID res) of
        None \<Rightarrow> l
      | Some ch \<Rightarrow> l\<lparr>chans := (chans l)(ch \<mapsto> res), reqs := (reqs l)(res_ID res := None)\<rparr>)"

text \<open>Modelled from the spec: \<^verbatim>\<open>line.cancel\<close> removes the entry of the id if present.\<close>

definition line_cancel :: "('r, 'e) line \<Rightarrow> RequestID \<Rightarrow> ('r, 'e) line" where
  "line_cancel l i = l\<lparr>reqs := (reqs l)(i := None)\<rparr>"

text \<open>
  Modelled from the spec: the id generator (package gen) is not among the sources. The spec
  calls it a monotonic generator seeded at boot: \<^verbatim>\<open>NewSeqIDGen(seed)\<close> starts at the seed
  and every \<^verbatim>\<open>GenID()\<close> returns the next value, the first one being \<open>seed + 1\<close>.
\<close>

type_synonym SeqIDGen = uint64

text \<open>Modelled from the spec: \<^verbatim>\<open>gen.NewSeqIDGen\<close>, the generator seeded with \<open>seed\<close>.\<close>

definition NewSeqIDGen :: "uint64 \<Rightarrow> SeqIDGen" where
  "NewSeqIDGen seed = seed"

text \<open>Modelled from the spec: \<^verbatim>\<open>GenID\<close> returns the next number and the generator after it.\<close>

definition GenID :: "SeqIDGen \<Rightarrow> uint64 \<times> SeqIDGen" where
  "GenID g = (g + 1, g + 1)"

text \<open>
  What the node is given from outside: the user's Store (an interface), the Raft engine,
  and the codecs. \<open>None\<close> from a codec is its error result.
  \<open>Store_ApplyOld\<close> is \<^verbatim>\<open>Store.Apply\<close> of the older variant, which has one result.
  \<open>asNodeInfo\<close> is the type assertion \<^verbatim>\<open>req.Data.(NodeInfo)\<close>.
\<close>

record ('st, 'd, 'r, 'e, 'eng) deps =
  Store_Apply :: "'st \<Rightarrow> 'd \<Rightarrow> ('r option \<times> 'e option \<times> 'st) outcome"
  Store_ApplyConfChange :: "'st \<Rightarrow> ConfChange \<Rightarrow> NodeInfo \<Rightarrow> ('e option \<times> 'st) outcome"
  Store_ApplyOld :: "'st \<Rightarrow> 'd option \<Rightarrow> ('r option \<times> 'st) outcome"
  Engine_Propose :: "'eng \<Rightarrow> bytes \<Rightarrow> 'eng"
  Engine_ApplyConfChange :: "'eng \<Rightarrow> ConfChange \<Rightarrow> ConfState \<times> 'eng"
  EncodeRequest :: "'d Request \<Rightarrow> bytes option"
  DecodeRequest :: "bytes \<Rightarrow> 'd Request option"
  DecodeNodeInfo :: "bytes \<Rightarrow> NodeInfo option"
  UnmarshalConfChange :: "bytes \<Rightarrow> ConfChange option"
  asNodeInfo :: "'d \<Rightarrow> NodeInfo option"

record ('st, 'r, 'e, 'eng) Node =
  node_id :: uint64
  engine :: 'eng
  gen :: SeqIDGen
  store :: 'st
  line :: "('r, 'e) line"
  snapCount :: uint64
  node_done :: bool

subsection \<open>Construction: the seed of the id generator\<close>

text \<open>
  \<^verbatim>\<open>NewNode\<close> leaves \<^verbatim>\<open>lastIndex\<close> zero when there is no WAL and otherwise reads it from
  the last entry of the WAL (\<^verbatim>\<open>ents[len(ents)-1].Index\<close>, a run-time panic on no entries).
  The newer variant seeds the generator with \<^verbatim>\<open>lastIndex + 2*snapCount\<close>, raft/node.go
  with \<^verbatim>\<open>lastIndex\<close>.
\<close>

definition NewNode_lastIndex :: "Entry list option \<Rightarrow> uint64 outcome" where
  "NewNode_lastIndex wal =
     (case wal of
        None \<Rightarrow> Ret 0
      | Some ents \<Rightarrow> if ents = [] then Fatal else Ret (e_Index (last ents)))"

definition NewNode_gen :: "Entry list option \<Rightarrow> uint64 \<Rightarrow> SeqIDGen outcome" where
  "NewNode_gen wal snapCnt =
     (case NewNode_lastIndex wal of
        Fatal \<Rightarrow> Fatal
      | Ret lastIndex \<Rightarrow> Ret (NewSeqIDGen (lastIndex + 2 * snapCnt)))"

definition NewNode_gen_old :: "Entry list option \<Rightarrow> SeqIDGen outcome" where
  "NewNode_gen_old wal =
     (case NewNode_lastIndex wal of
        Fatal \<Rightarrow> Fatal
      | Ret lastIndex \<Rightarrow> Ret (NewSeqIDGen lastIndex))"

definition genID ::
  "('st, 'r, 'e, 'eng) Node \<Rightarrow> RequestID \<times> ('st, 'r, 'e, 'eng) Node" where
  "genID n = (case GenID (gen n) of (s, g) \<Rightarrow> (\<lparr>rid_NodeID = node_id n, rid_Seq = s\<rparr>, n\<lparr>gen := g\<rparr>))"

text \<open>The sequence numbers of the first \<open>k\<close> requests a node issues from a generator.\<close>

fun issuedSeqs :: "nat \<Rightarrow> SeqIDGen \<Rightarrow> uint64 list" where
  "issuedSeqs 0 g = []"
| "issuedSeqs (Suc k) g = (case GenID g of (s, g') \<Rightarrow> s # issuedSeqs k g')"

subsection \<open>Process and Do\<close>

text \<open>
  \<^verbatim>\<open>Process\<close> blocks in a \<^verbatim>\<open>select\<close>, so it is modelled in two steps. \<open>Process_submit\<close>
  is the part before the \<^verbatim>\<open>select\<close>: it either returns at once with the error of
  \<^verbatim>\<open>Encode\<close>, or registers the wait and proposes. \<open>Process_select\<close> is the \<^verbatim>\<open>select\<close>:
  for the case taken it gives the values returned and the node afterwards, and \<open>None\<close>
  when that case cannot be taken (nothing in the channel, context not done, node not done).
\<close>

datatype ctxErr = Canceled | DeadlineExceeded

datatype 'e callError = StoreError 'e | CtxError ctxErr | ErrStopped

datatype 'd submitted = EncodeFailed | Waiting "'d Request" chan bytes

datatype select_case = RecvReply | RecvCtxDone | RecvNodeDone

definition Process_submit ::
  "('st, 'd, 'r, 'e, 'eng) deps \<Rightarrow> ('st, 'r, 'e, 'eng) Node \<Rightarrow> 'd option \<Rightarrow>
   'd submitted \<times> ('st, 'r, 'e, 'eng) Node" where
  "Process_submit D n req =
     (case genID n of
        (rid, n1) \<Rightarrow>
          (case EncodeRequest D \<lparr>req_ID = rid, req_Data = req\<rparr> of
             None \<Rightarrow> (EncodeFailed, n1)
           | Some b \<Rightarrow>
               (case line_wait (line n1) rid of
                  (ch, l) \<Rightarrow>
                    (Waiting \<lparr>req_ID = rid, req_Data = req\<rparr> ch b,
                     n1\<lparr>line := l, engine := Engine_Propose D (engine n1) b\<rparr>))))"

definition Process_select ::
  "('st, 'r, 'e, 'eng) Node \<Rightarrow> ctxErr option \<Rightarrow> RequestID \<Rightarrow> chan \<Rightarrow> select_case \<Rightarrow>
   (('r option \<times> 'e callError option) \<times> ('st, 'r, 'e, 'eng) Node) option" where
  "Process_select n ctx rid ch c =
     (case c of
        RecvReply \<Rightarrow>
          (case chans (line n) ch of
             None \<Rightarrow> None
           | Some res \<Rightarrow>
               Some ((res_Data res, map_option StoreError (res_Err res)),
                     n\<lparr>line := (line n)\<lparr>chans := (chans (line n))(ch := None)\<rparr>\<rparr>))
      | RecvCtxDone \<Rightarrow>
          (case ctx of
             None \<Rightarrow> None
           | Some err \<Rightarrow> Some ((None, Some (CtxError err)), n\<lparr>line := line_cancel (line n) rid\<rparr>))
      | RecvNodeDone \<Rightarrow> if node_done n then Some ((None, Some ErrStopped), n) else None)"

text \<open>\<^verbatim>\<open>Do\<close> of raft/node.go: the reply's error is not read, and a done context calls the line.\<close>

definition Do_select ::
  "('st, 'r, 'e, 'eng) Node \<Rightarrow> ctxErr option \<Rightarrow> RequestID \<Rightarrow> chan \<Rightarrow> select_case \<Rightarrow>
   (('r option \<times> 'e callError option) \<times> ('st, 'r, 'e, 'eng) Node) option" where
  "Do_select n ctx rid ch c =
     (case c of
        RecvReply \<Rightarrow>
          (case chans (line n) ch of
             None \<Rightarrow> None
           | Some res \<Rightarrow>
               Some ((res_Data res, None),
                     n\<lparr>line := (line n)\<lparr>chans := (chans (line n))(ch := None)\<rparr>\<rparr>))
      | RecvCtxDone \<Rightarrow>
          (case ctx of
             None \<Rightarrow> None
           | Some err \<Rightarrow>
               Some ((None, Some (CtxError err)),
                     n\<lparr>line := line_call (line n) \<lparr>res_ID = rid, res_Data = None, res_Err = None\<rparr>\<rparr>))
      | RecvNodeDone \<Rightarrow> if node_done n then Some ((None, Some ErrStopped), n) else None)"

subsection \<open>Applying committed entries\<close>

definition applyEntry ::
  "('st, 'd, 'r, 'e, 'eng) deps \<Rightarrow> ('st, 'r, 'e, 'eng) Node \<Rightarrow> Entry \<Rightarrow>
   ('st, 'r, 'e, 'eng) Node outcome" where
  "applyEntry D n e =
     (if length (e_Data e) = 0 then Ret n
      else
        case DecodeRequest D (e_Data e) of
          None \<Rightarrow> Fatal
        | Some req \<Rightarrow>
           (case req_Data req of
              None \<Rightarrow> Ret n
            | Some d \<Rightarrow>
               (case Store_Apply D (store n) d of
                  Fatal \<Rightarrow> Fatal
                | Ret (dat, err, st) \<Rightarrow>
                    Ret (n\<lparr>store := st,
                           line := line_call (line n)
                                     \<lparr>res_ID = req_ID req, res_Data = dat, res_Err = err\<rparr>\<rparr>))))"

text \<open>The body of the loop over committed entries in \<^verbatim>\<open>Start\<close> of raft/node.go, for a normal entry.\<close>

definition Start_old_applyNormal ::
  "('st, 'd, 'r, 'e, 'eng) deps \<Rightarrow> ('st, 'r, 'e, 'eng) Node \<Rightarrow> Entry \<Rightarrow>
   ('st, 'r, 'e, 'eng) Node outcome" where
  "Start_old_applyNormal D n e =
     (case DecodeRequest D (e_Data e) of
        None \<Rightarrow> Fatal
      | Some req \<Rightarrow>
         (case Store_ApplyOld D (store n) (req_Data req) of
            Fatal \<Rightarrow> Fatal
          | Ret (dat, st) \<Rightarrow>
              Ret (n\<lparr>store := st,
                     line := line_call (line n)
                               \<lparr>res_ID = req_ID req, res_Data = dat, res_Err = None\<rparr>\<rparr>)))"

fun containsNode :: "uint64 list \<Rightarrow> uint64 \<Rightarrow> bool" where
  "containsNode [] node = False"
| "containsNode (n # nodes) node = (if node = n then True else containsNode nodes node)"

datatype ccError = NodeIDIsNil | IsDuplicate uint64 | NoSuchNode uint64

definition validConfChange :: "ConfChange \<Rightarrow> ConfState \<Rightarrow> ccError option outcome" where
  "validConfChange cc confs =
     (if cc_NodeID cc = etcdraft_None then Ret (Some NodeIDIsNil)
      else
        case cc_Type cc of
          ConfChangeAddNode \<Rightarrow>
            if containsNode (Nodes confs) (cc_NodeID cc) then Ret (Some (IsDuplicate (cc_NodeID cc)))
            else Ret None
        | ConfChangeRemoveNode \<Rightarrow>
            if \<not> containsNode (Nodes confs) (cc_NodeID cc) then Ret (Some (NoSuchNode (cc_NodeID cc)))
            else Ret None
        | ConfChangeOtherType \<Rightarrow> Fatal)"

text \<open>
  \<^verbatim>\<open>applyConfChange\<close>: its error result, the \<^verbatim>\<open>ConfState\<close> behind the pointer afterwards
  and the node afterwards.
\<close>

definition notifyStore ::
  "('st, 'd, 'r, 'e, 'eng) deps \<Rightarrow> ('st, 'r, 'e, 'eng) Node \<Rightarrow> ConfChange \<Rightarrow> NodeInfo \<Rightarrow>
   ('e option \<times> ('st, 'r, 'e, 'eng) Node) outcome" where
  "notifyStore D n cc info =
     (case Store_ApplyConfChange D (store n) cc info of
        Fatal \<Rightarrow> Fatal
      | Ret (err, st) \<Rightarrow> Ret (err, n\<lparr>store := st\<rparr>))"

definition applyConfChange ::
  "('st, 'd, 'r, 'e, 'eng) deps \<Rightarrow> ('st, 'r, 'e, 'eng) Node \<Rightarrow> Entry \<Rightarrow> ConfState \<Rightarrow>
   (ccError option \<times> ConfState \<times> ('st, 'r, 'e, 'eng) Node) outcome" where
  "applyConfChange D n e confs =
     (case UnmarshalConfChange D (e_Data e) of
        None \<Rightarrow> Fatal
      | Some cc \<Rightarrow>
         (case validConfChange cc confs of
            Fatal \<Rightarrow> Fatal
          | Ret (Some err) \<Rightarrow>
              (case Engine_ApplyConfChange D (engine n) (cc\<lparr>cc_NodeID := etcdraft_None\<rparr>) of
                 (cs, eng) \<Rightarrow> Ret (Some err, confs, n\<lparr>engine := eng\<rparr>))
          | Ret None \<Rightarrow>
              (case Engine_ApplyConfChange D (engine n) cc of
                 (cs, eng) \<Rightarrow>
                   (if length (cc_Context cc) = 0 then
                      (case notifyStore D (n\<lparr>engine := eng\<rparr>) cc \<lparr>ni_ID = 0, ni_Addr = []\<rparr> of
                         Fatal \<Rightarrow> Fatal
                       | Ret (err, n2) \<Rightarrow> Ret (None, cs, n2))
                    else
                      (case DecodeNodeInfo D (cc_Context cc) of
                         Some info \<Rightarrow>
                           (if ni_ID info \<noteq> cc_NodeID cc then Fatal
                            else
                              (case notifyStore D (n\<lparr>engine := eng\<rparr>) cc info of
                                 Fatal \<Rightarrow> Fatal
                               | Ret (err, n2) \<Rightarrow> Ret (None, cs, n2)))
                       | None \<Rightarrow>
                          (case DecodeRequest D (cc_Context cc) of
                             None \<Rightarrow> Fatal
                           | Some req \<Rightarrow>
                              (case Option.bind (req_Data req) (asNodeInfo D) of
                                 None \<Rightarrow> Fatal
                               | Some info \<Rightarrow>
                                  (case notifyStore D (n\<lparr>engine := eng\<rparr>) cc info of
                                     Fatal \<Rightarrow> Fatal
                                   | Ret (err, n2) \<Rightarrow>
                                       Ret (None, cs,
                                            n2\<lparr>line := line_call (line n2)
                                                  \<lparr>res_ID = req_ID req, res_Data = None,
                                                   res_Err = err\<rparr>\<rparr>)))))))))"

text \<open>
  The loop of \<^verbatim>\<open>apply\<close> over the entries, from a value of the result \<^verbatim>\<open>appliedi\<close>: the
  index of the last entry applied, \<^verbatim>\<open>shouldStop\<close> (never set), the \<^verbatim>\<open>ConfState\<close> and
  the node. The error of \<^verbatim>\<open>applyConfChange\<close> is not read.
\<close>

fun Node_apply_loop ::
  "('st, 'd, 'r, 'e, 'eng) deps \<Rightarrow> Entry list \<Rightarrow> uint64 \<Rightarrow> ConfState \<Rightarrow>
   ('st, 'r, 'e, 'eng) Node \<Rightarrow> (uint64 \<times> bool \<times> ConfState \<times> ('st, 'r, 'e, 'eng) Node) outcome" where
  "Node_apply_loop D [] appliedi confs n = Ret (appliedi, False, confs, n)"
| "Node_apply_loop D (e # es) appliedi confs n =
     (case e_Type e of
        EntryNormal \<Rightarrow>
          (case applyEntry D n e of
             Fatal \<Rightarrow> Fatal
           | Ret n1 \<Rightarrow> Node_apply_loop D es (e_Index e) confs n1)
      | EntryConfChange \<Rightarrow>
          (case applyConfChange D n e confs of
             Fatal \<Rightarrow> Fatal
           | Ret (err, confs1, n1) \<Rightarrow> Node_apply_loop D es (e_Index e) confs1 n1)
      | EntryOtherType \<Rightarrow> Fatal)"

text \<open>\<^verbatim>\<open>apply\<close>: its results are named, so \<^verbatim>\<open>appliedi\<close> starts at zero.\<close>

definition Node_apply ::
  "('st, 'd, 'r, 'e, 'eng) deps \<Rightarrow> Entry list \<Rightarrow> ConfState \<Rightarrow>
   ('st, 'r, 'e, 'eng) Node \<Rightarrow> (uint64 \<times> bool \<times> ConfState \<times> ('st, 'r, 'e, 'eng) Node) outcome" where
  "Node_apply D es confs n = Node_apply_loop D es 0 confs n"

subsection \<open>The main loop of the newer variant\<close>

text \<open>
  \<^verbatim>\<open>Start\<close> loops on a \<^verbatim>\<open>select\<close> with four cases. Taking a Ready sets the local
  \<^verbatim>\<open>ready\<close> channel to nil, which disables that case, and hands the batch to a new
  goroutine; the goroutine ends by sending on \<^verbatim>\<open>adv\<close>; receiving from \<^verbatim>\<open>adv\<close> fetches
  the engine's Ready channel again and calls \<^verbatim>\<open>Advance\<close>. The state of the loop is
  whether \<^verbatim>\<open>ready\<close> is nil, how many batches have been handed out and not yet advanced,
  whether the loop has returned, and the calls made on the engine, latest last.
\<close>

datatype loop_event = TickerFired | AdvReceived | ReadyReceived | StopReceived

datatype engine_call = CallTick | CallAdvance | CallStop

record loop_state =
  ready_nil :: bool
  in_flight :: nat
  returned :: bool
  engine_calls :: "engine_call list"

definition loop_init :: loop_state where
  "loop_init = \<lparr>ready_nil = False, in_flight = 0, returned = False, engine_calls = []\<rparr>"

text \<open>One iteration of the loop on the case taken; \<open>None\<close> when that case cannot be taken.\<close>

definition loop_step :: "loop_state \<Rightarrow> loop_event \<Rightarrow> loop_state option" where
  "loop_step s ev =
     (if returned s then None
      else
        case ev of
          TickerFired \<Rightarrow> Some (s\<lparr>engine_calls := engine_calls s @ [CallTick]\<rparr>)
        | AdvReceived \<Rightarrow>
            if in_flight s = 0 then None
            else Some (s\<lparr>ready_nil := False, in_flight := in_flight s - 1,
                         engine_calls := engine_calls s @ [CallAdvance]\<rparr>)
        | ReadyReceived \<Rightarrow>
            if ready_nil s then None
            else Some (s\<lparr>ready_nil := True, in_flight := Suc (in_flight s)\<rparr>)
        | StopReceived \<Rightarrow> Some (s\<lparr>returned := True, engine_calls := engine_calls s @ [CallStop]\<rparr>))"

fun loop_run :: "loop_state \<Rightarrow> loop_event list \<Rightarrow> loop_state option" where
  "loop_run s [] = Some s"
| "loop_run s (ev # evs) = (case loop_step s ev of None \<Rightarrow> None | Some s1 \<Rightarrow> loop_run s1 evs)"

text \<open>
  Two properties of a sequence of loop iterations, read with a flag that says whether a
  Ready has been taken and not yet advanced: \<open>serialized\<close> allows nothing but the advance
  while the flag is set; \<open>oneReadyAtATime\<close> only forbids taking another Ready.
\<close>

fun serialized :: "bool \<Rightarrow> loop_event list \<Rightarrow> bool" where
  "serialized busy [] = True"
| "serialized busy (AdvReceived # evs) = serialized False evs"
| "serialized busy (ReadyReceived # evs) = (\<not> busy \<and> serialized True evs)"
| "serialized busy (TickerFired # evs) = (\<not> busy \<and> serialized busy evs)"
| "serialized busy (StopReceived # evs) = (\<not> busy \<and> serialized busy evs)"

fun oneReadyAtATime :: "bool \<Rightarrow> loop_event list \<Rightarrow> bool" where
  "oneReadyAtATime busy [] = True"
| "oneReadyAtATime busy (AdvReceived # evs) = oneReadyAtATime False evs"
| "oneReadyAtATime busy (ReadyReceived # evs) = (\<not> busy \<and> oneReadyAtATime True evs)"
| "oneReadyAtATime busy (TickerFired # evs) = oneReadyAtATime busy evs"
| "oneReadyAtATime busy (StopReceived # evs) = oneReadyAtATime busy evs"

subsection \<open>The registry as the Store of a node\<close>

text \<open>\<^verbatim>\<open>registry.ApplyConfChange\<close>; its error result is always nil.\<close>

definition registry_ApplyConfChange ::
  "registry \<Rightarrow> ConfChange \<Rightarrow> NodeInfo \<Rightarrow> (error option \<times> registry) outcome" where
  "registry_ApplyConfChange r cc n =
     (case cc_Type cc of
        ConfChangeAddNode \<Rightarrow>
          if ni_ID n \<noteq> cc_NodeID cc then Fatal
          else if ni_Addr n \<noteq> [] then
            (case registry_addHive r \<lparr>hive_ID = ni_ID n, hive_Addr = ni_Addr n\<rparr> of
               Fatal \<Rightarrow> Fatal
             | Ret r1 \<Rightarrow> Ret (None, r1))
          else Ret (None, r)
      | ConfChangeRemoveNode \<Rightarrow> Ret (None, registry_delHive r (cc_NodeID cc))
      | ConfChangeOtherType \<Rightarrow> Ret (None, r))"

section \<open>Notions used in the statements\<close>

text \<open>
  \<open>mapColony P c m\<close> is the bee map \<open>m\<close> with the colony
  of every registered bee satisfying \<open>P\<close> set to \<open>c\<close>.
\<close>

definition mapColony ::
  "(uint64 \<Rightarrow> bool) \<Rightarrow> Colony \<Rightarrow> (uint64 \<rightharpoonup> BeeInfo) \<Rightarrow> (uint64 \<rightharpoonup> BeeInfo)" where
  "mapColony P c m = (\<lambda>x. if P x then map_option (\<lambda>b. b\<lparr>bee_Colony := c\<rparr>) (m x) else m x)"

text \<open>Values used in the examples.\<close>

abbreviation colony7 :: Colony where
  "colony7 \<equiv> \<lparr>Leader = 7, Followers = []\<rparr>"

abbreviation colony8 :: Colony where
  "colony8 \<equiv> \<lparr>Leader = 8, Followers = []\<rparr>"

abbreviation bee7 :: BeeInfo where
  "bee7 \<equiv> \<lparr>bee_ID = 7, bee_Hive = 1, bee_App = ''a'', bee_Colony = colony7,
            bee_Detached = False\<rparr>"

abbreviation colony1 :: Colony where
  "colony1 \<equiv> \<lparr>Leader = 1, Followers = []\<rparr>"

abbreviation colony2 :: Colony where
  "colony2 \<equiv> \<lparr>Leader = 2, Followers = []\<rparr>"

abbreviation colony12 :: Colony where
  "colony12 \<equiv> \<lparr>Leader = 1, Followers = [2]\<rparr>"

abbreviation colony23 :: Colony where
  "colony23 \<equiv> \<lparr>Leader = 2, Followers = [3]\<rparr>"

abbreviation beeOf :: "uint64 \<Rightarrow> Colony \<Rightarrow> BeeInfo" where
  "beeOf i c \<equiv> \<lparr>bee_ID = i, bee_Hive = 1, bee_App = ''a'', bee_Colony = c, bee_Detached = False\<rparr>"

text \<open>
  Validity of a conf change against a \<^verbatim>\<open>ConfState\<close>, in the words of the spec: the node id
  is non-zero; for AddNode it is not yet a member; for RemoveNode it is a member.
\<close>

definition validPerSpec :: "ConfChange \<Rightarrow> ConfState \<Rightarrow> bool" where
  "validPerSpec cc confs \<longleftrightarrow>
     cc_NodeID cc \<noteq> 0 \<and>
     (cc_Type cc = ConfChangeAddNode \<longrightarrow> cc_NodeID cc \<notin> set (Nodes confs)) \<and>
     (cc_Type cc = ConfChangeRemoveNode \<longrightarrow> cc_NodeID cc \<in> set (Nodes confs))"

text \<open>
  The values that travel as request data in the examples: a node info (conf changes) or a
  registry request.
\<close>

datatype data = DataNodeInfo NodeInfo | DataRequest request

text \<open>
  A small wire format for the examples: a request is three bytes (node id, sequence
  number, a tag for the data), a conf change is its type, its node id and then its context,
  a node info is the byte 9 and its id. The example engine keeps the conf changes it was
  given and answers with the members they leave.
\<close>

definition exEncodeData :: "data option \<Rightarrow> 8 word" where
  "exEncodeData d =
     (case d of
        None \<Rightarrow> 0
      | Some (DataRequest noOp) \<Rightarrow> 1
      | Some (DataRequest newBeeID) \<Rightarrow> 2
      | Some _ \<Rightarrow> 3)"

definition exDecodeData :: "8 word \<Rightarrow> data option" where
  "exDecodeData t =
     (if t = 0 then None
      else if t = 1 then Some (DataRequest noOp)
      else if t = 2 then Some (DataRequest newBeeID)
      else Some (DataRequest unknownRequest))"

definition exEncodeRequest :: "data Request \<Rightarrow> bytes option" where
  "exEncodeRequest r =
     Some [ucast (rid_NodeID (req_ID r)), ucast (rid_Seq (req_ID r)), exEncodeData (req_Data r)]"

definition exDecodeRequest :: "bytes \<Rightarrow> data Request option" where
  "exDecodeRequest b =
     (if length b = 3
      then Some \<lparr>req_ID = \<lparr>rid_NodeID = ucast (b ! 0), rid_Seq = ucast (b ! 1)\<rparr>,
                 req_Data = exDecodeData (b ! 2)\<rparr>
      else None)"

definition exUnmarshalConfChange :: "bytes \<Rightarrow> ConfChange option" where
  "exUnmarshalConfChange b =
     (if length b < 2 then None
      else Some \<lparr>cc_ID = 0,
                 cc_Type = (if b ! 0 = 0 then ConfChangeAddNode
                            else if b ! 0 = 1 then ConfChangeRemoveNode
                            else ConfChangeOtherType),
                 cc_NodeID = ucast (b ! 1),
                 cc_Context = drop 2 b\<rparr>)"

definition exDecodeNodeInfo :: "bytes \<Rightarrow> NodeInfo option" where
  "exDecodeNodeInfo b =
     (if length b = 2 \<and> b ! 0 = 9 then Some \<lparr>ni_ID = ucast (b ! 1), ni_Addr = ''d''\<rparr> else None)"

definition exEngineApplyConfChange :: "ConfChange list \<Rightarrow> ConfChange \<Rightarrow> ConfState \<times> ConfChange list" where
  "exEngineApplyConfChange eng cc =
     (\<lparr>Nodes = foldl (\<lambda>ns c.
                  if cc_NodeID c = 0 then ns
                  else case cc_Type c of
                         ConfChangeAddNode \<Rightarrow> ns @ [cc_NodeID c]
                       | ConfChangeRemoveNode \<Rightarrow> removeAll (cc_NodeID c) ns
                       | ConfChangeOtherType \<Rightarrow> ns) [] (eng @ [cc])\<rparr>,
      eng @ [cc])"

definition registryDeps :: "(registry, data, reply, error, ConfChange list) deps" where
  "registryDeps =
     \<lparr>Store_Apply = (\<lambda>r d. case d of
                        DataRequest q \<Rightarrow> registry_Apply r q
                      | DataNodeInfo i \<Rightarrow> registry_Apply r unknownRequest),
      Store_ApplyConfChange = registry_ApplyConfChange,
      Store_ApplyOld = (\<lambda>r d. case (case d of
                                      Some (DataRequest q) \<Rightarrow> registry_Apply r q
                                    | _ \<Rightarrow> registry_Apply r unknownRequest) of
                                Fatal \<Rightarrow> Fatal
                              | Ret (rep, err, r1) \<Rightarrow> Ret (rep, r1)),
      Engine_Propose = (\<lambda>eng b. eng),
      Engine_ApplyConfChange = exEngineApplyConfChange,
      EncodeRequest = exEncodeRequest,
      DecodeRequest = exDecodeRequest,
      DecodeNodeInfo = exDecodeNodeInfo,
      UnmarshalConfChange = exUnmarshalConfChange,
      asNodeInfo = (\<lambda>d. case d of DataNodeInfo i \<Rightarrow> Some i | DataRequest q \<Rightarrow> None)\<rparr>"

definition exampleNode :: "(registry, reply, error, ConfChange list) Node" where
  "exampleNode =
     \<lparr>node_id = 1, engine = [], gen = 6, store = newRegistry ''r'', line = line_init,
      snapCount = 1, node_done = False\<rparr>"

abbreviation rid17 :: RequestID where
  "rid17 \<equiv> \<lparr>rid_NodeID = 1, rid_Seq = 7\<rparr>"

abbreviation waitingNode :: "(registry, reply, error, ConfChange list) Node" where
  "waitingNode \<equiv>
     exampleNode\<lparr>gen := 7, line := \<lparr>reqs = [rid17 \<mapsto> 0], chans = Map.empty, nextChan = 1\<rparr>\<rparr>"

abbreviation answeredNode :: "(registry, reply, error, ConfChange list) Node" where
  "answeredNode \<equiv>
     exampleNode\<lparr>gen := 7, store := (newRegistry ''r'')\<lparr>BeeID := 1\<rparr>,
       line := \<lparr>reqs = Map.empty,
                chans = [0 \<mapsto> \<lparr>res_ID = rid17, res_Data = Some (ReplyID 1), res_Err = None\<rparr>],
                nextChan = 1\<rparr>\<rparr>"

abbreviation addNode1 :: ConfChange where
  "addNode1 \<equiv> \<lparr>cc_ID = 0, cc_Type = ConfChangeAddNode, cc_NodeID = 1, cc_Context = []\<rparr>"

abbreviation memberNode :: "(registry, reply, error, ConfChange list) Node" where
  "memberNode \<equiv> exampleNode\<lparr>engine := [addNode1]\<rparr>"

section \<open>Properties of the registry\<close>

subsection \<open>Auxiliary facts about the loops\<close>

lemma assignAll_snoc:
  "assignAll app c (ks @ [k]) s = cellStore_assign (assignAll app c ks s) app k c"
  by (simp add: assignAll_def)

lemma colony_assignAll:
  "cellStore_colony (assignAll app c ks s) a k =
     (if a = app \<and> k \<in> set ks then Some c else cellStore_colony s a k)"
proof (induction ks rule: rev_induct)
  case Nil
  show ?case by (simp add: assignAll_def)
next
  case (snoc x xs)
  show ?case
    unfolding assignAll_snoc
    using snoc by (auto simp: cellStore_colony_def cellStore_assign_def update_conv')
qed

lemma update_fresh_append:
  "map_of al k = None \<Longrightarrow> AList.update k v al = al @ [(k, v)]"
  by (induction al) (auto split: if_splits)

lemma assignAll_fresh:
  "\<forall>k \<in> set ks. cellStore_colony s app k = None \<Longrightarrow>
   assignAll app c ks s = s @ map (\<lambda>k. ((app, k), c)) (rev (remdups (rev ks)))"
proof (induction ks rule: rev_induct)
  case Nil
  show ?case by (simp add: assignAll_def)
next
  case (snoc x xs)
  then have IH: "assignAll app c xs s = s @ map (\<lambda>k. ((app, k), c)) (rev (remdups (rev xs)))"
    by simp
  show ?case
  proof (cases "x \<in> set xs")
    case True
    then have "cellStore_colony (assignAll app c xs s) app x = Some c"
      by (simp add: colony_assignAll)
    then have "cellStore_assign (assignAll app c xs s) app x c = assignAll app c xs s"
      by (simp add: cellStore_assign_def cellStore_colony_def update_triv)
    with True IH show ?thesis by (simp add: assignAll_snoc)
  next
    case False
    with snoc.prems have "cellStore_colony (assignAll app c xs s) app x = None"
      by (simp add: colony_assignAll)
    then have "cellStore_assign (assignAll app c xs s) app x c =
               assignAll app c xs s @ [((app, x), c)]"
      by (simp add: cellStore_assign_def cellStore_colony_def update_fresh_append)
    with False IH show ?thesis by (simp add: assignAll_snoc)
  qed
qed

lemma cells_append:
  "cellStore_cells (s @ t) b = cellStore_cells s b @ cellStore_cells t b"
  by (simp add: cellStore_cells_def)

lemma cells_of_new:
  "cellStore_cells (map (\<lambda>k. ((app, k), c)) ks) b = (if Leader c = b then ks else [])"
  by (induction ks) (auto simp: cellStore_cells_def)

lemma lockScan_unmapped:
  "\<forall>k \<in> set ks. cellStore_colony s app k = None \<Longrightarrow>
   lockScan app ks (False, openk, col, s) = Ret (False, openk @ ks, col, s)"
  by (induction ks arbitrary: openk) auto

lemma lockScan_owned:
  "\<forall>k \<in> set ks. cellStore_colony s app k = Some col \<Longrightarrow>
   lockScan app ks (True, openk, col, s) = Ret (True, openk, col, s)"
  by (induction ks) (auto simp: Colony_Equals_def)

lemma lockScan_owned_start:
  "\<forall>k \<in> set ks. cellStore_colony s app k = Some col \<Longrightarrow>
   lockScan app ks (False, [], col, s) = Ret (ks \<noteq> [], [], col, s)"
  by (cases ks) (auto simp: lockScan_owned)

lemma owned_cell_listed:
  "((a, k), c) \<in> set s \<Longrightarrow> Leader c = b \<Longrightarrow> k \<in> set (cellStore_cells s b)"
  by (force simp: cellStore_cells_def)

lemma colony_owned_listed:
  "cellStore_colony s a k = Some c \<Longrightarrow> Leader c = b \<Longrightarrow> k \<in> set (cellStore_cells s b)"
  by (auto simp: cellStore_colony_def dest: map_of_SomeD owned_cell_listed)

lemma mapColony_eq_None: "mapColony P c m x = None \<longleftrightarrow> m x = None"
  by (simp add: mapColony_def)

lemma setColony_Ret:
  "Bees r i \<noteq> None \<Longrightarrow>
   setColony r i c = Ret (r\<lparr>Bees := mapColony (\<lambda>x. x = i) c (Bees r)\<rparr>)"
  by (auto simp: setColony_def registry_mustFindBee_def mapColony_def fun_eq_iff)

lemma mapColony_twice:
  "mapColony P c (mapColony Q c m) = mapColony (\<lambda>x. P x \<or> Q x) c m"
  by (auto simp: mapColony_def fun_eq_iff option.map_comp comp_def)

lemma clearOldFollowers_Ret:
  "\<forall>f \<in> set fs. Bees r f \<noteq> None \<Longrightarrow>
   clearOldFollowers newc fs r =
     Ret (r\<lparr>Bees := mapColony (\<lambda>x. x \<in> set fs \<and> \<not> Colony_Contains newc x) Colony_zero (Bees r)\<rparr>)"
proof (induction fs arbitrary: r)
  case Nil
  show ?case by (simp add: mapColony_def)
next
  case (Cons f fs)
  show ?case
  proof (cases "Colony_Contains newc f")
    case True
    have "mapColony (\<lambda>x. x \<in> set (f # fs) \<and> \<not> Colony_Contains newc x) Colony_zero (Bees r) =
          mapColony (\<lambda>x. x \<in> set fs \<and> \<not> Colony_Contains newc x) Colony_zero (Bees r)"
      using True by (auto simp: mapColony_def fun_eq_iff)
    with True Cons show ?thesis by simp
  next
    case False
    let ?r1 = "r\<lparr>Bees := mapColony (\<lambda>x. x = f) Colony_zero (Bees r)\<rparr>"
    have s: "setColony r f Colony_zero = Ret ?r1"
      using Cons.prems by (simp add: setColony_Ret)
    have d: "\<forall>g \<in> set fs. Bees ?r1 g \<noteq> None"
      using Cons.prems by (simp add: mapColony_eq_None)
    have "mapColony (\<lambda>x. x \<in> set fs \<and> \<not> Colony_Contains newc x) Colony_zero
            (mapColony (\<lambda>x. x = f) Colony_zero (Bees r)) =
          mapColony (\<lambda>x. x \<in> set (f # fs) \<and> \<not> Colony_Contains newc x) Colony_zero (Bees r)"
      using False by (auto simp: mapColony_twice intro!: arg_cong [where f = "\<lambda>P. mapColony P Colony_zero (Bees r)"])
    with False s Cons.IH [OF d] show ?thesis by simp
  qed
qed

lemma setNewFollowers_Ret:
  "\<forall>f \<in> set fs. Bees r f \<noteq> None \<Longrightarrow>
   setNewFollowers newc fs r = Ret (r\<lparr>Bees := mapColony (\<lambda>x. x \<in> set fs) newc (Bees r)\<rparr>)"
proof (induction fs arbitrary: r)
  case Nil
  show ?case by (simp add: mapColony_def)
next
  case (Cons f fs)
  let ?r1 = "r\<lparr>Bees := mapColony (\<lambda>x. x = f) newc (Bees r)\<rparr>"
  have s: "setColony r f newc = Ret ?r1"
    using Cons.prems by (simp add: setColony_Ret)
  have d: "\<forall>g \<in> set fs. Bees ?r1 g \<noteq> None"
    using Cons.prems by (simp add: mapColony_eq_None)
  have "mapColony (\<lambda>x. x \<in> set fs) newc (mapColony (\<lambda>x. x = f) newc (Bees r)) =
        mapColony (\<lambda>x. x \<in> set (f # fs)) newc (Bees r)"
    by (auto simp: mapColony_twice intro!: arg_cong [where f = "\<lambda>P. mapColony P newc (Bees r)"])
  with s Cons.IH [OF d] show ?case by simp
qed

lemma updateOldLeader_Ret:
  "Bees r (Leader oldc) \<noteq> None \<Longrightarrow>
   updateOldLeader oldc newc r =
     Ret (r\<lparr>Bees := mapColony (\<lambda>x. x = Leader oldc \<and> Leader oldc \<noteq> Leader newc)
                     (if Colony_Contains newc (Leader oldc) then newc else Colony_zero) (Bees r)\<rparr>)"
  by (auto simp: updateOldLeader_def setColony_Ret mapColony_def fun_eq_iff
      intro!: arg_cong [where f = "\<lambda>b. r\<lparr>Bees := b\<rparr>"])

lemma colony_updateColony:
  "cellStore_updateColony s app oldc newc = Inr s' \<Longrightarrow>
   cellStore_colony s' a k =
     map_option (\<lambda>c. if c = oldc then newc else c) (cellStore_colony s a k)"
proof -
  have "map_of (map (\<lambda>e. if snd e = oldc then (fst e, newc) else e) s) key =
        map_option (\<lambda>c. if c = oldc then newc else c) (map_of s key)" for key
    by (induction s) auto
  then show "cellStore_updateColony s app oldc newc = Inr s' \<Longrightarrow> ?thesis"
    by (auto simp: cellStore_updateColony_def cellStore_colony_def Colony_Equals_def)
qed

lemma updateColony_explicit:
  assumes nn: "\<not> Colony_IsNil oldc" "\<not> Colony_IsNil newc"
    and ex: "\<forall>x. Colony_Contains oldc x \<or> Colony_Contains newc x \<longrightarrow> Bees r x \<noteq> None"
    and st: "cellStore_updateColony (Store r) (bee_App b) oldc newc = Inr s'"
    and b: "Bees r (Leader newc) = Some b"
  shows "registry_updateColony r oldc newc =
     Ret (None, r\<lparr>Store := s',
        Bees := mapColony (\<lambda>x. x = Leader newc) newc
                 (mapColony (\<lambda>x. x \<in> set (Followers newc)) newc
                   (mapColony (\<lambda>x. x \<in> set (Followers oldc) \<and> \<not> Colony_Contains newc x) Colony_zero
                     (mapColony (\<lambda>x. x = Leader oldc \<and> Leader oldc \<noteq> Leader newc)
                        (if Colony_Contains newc (Leader oldc) then newc else Colony_zero)
                        (Bees r))))\<rparr>)"
proof -
  let ?r0 = "r\<lparr>Store := s'\<rparr>"
  let ?B1 = "mapColony (\<lambda>x. x = Leader oldc \<and> Leader oldc \<noteq> Leader newc)
               (if Colony_Contains newc (Leader oldc) then newc else Colony_zero) (Bees r)"
  let ?r1 = "?r0\<lparr>Bees := ?B1\<rparr>"
  let ?B2 = "mapColony (\<lambda>x. x \<in> set (Followers oldc) \<and> \<not> Colony_Contains newc x) Colony_zero ?B1"
  let ?r2 = "?r1\<lparr>Bees := ?B2\<rparr>"
  let ?B3 = "mapColony (\<lambda>x. x \<in> set (Followers newc)) newc ?B2"
  let ?r3 = "?r2\<lparr>Bees := ?B3\<rparr>"
  let ?B4 = "mapColony (\<lambda>x. x = Leader newc) newc ?B3"
  have ol: "Bees ?r0 (Leader oldc) \<noteq> None"
    using ex by (simp add: Colony_Contains_def)
  have 1: "updateOldLeader oldc newc ?r0 = Ret ?r1"
    using updateOldLeader_Ret [OF ol, of newc] by simp
  have of1: "\<forall>f \<in> set (Followers oldc). Bees ?r1 f \<noteq> None"
    using ex by (simp add: Colony_Contains_def mapColony_eq_None)
  have 2: "clearOldFollowers newc (Followers oldc) ?r1 = Ret ?r2"
    using clearOldFollowers_Ret [OF of1, of newc] by simp
  have nf: "\<forall>f \<in> set (Followers newc). Bees ?r2 f \<noteq> None"
    using ex by (simp add: Colony_Contains_def mapColony_eq_None)
  have 3: "setNewFollowers newc (Followers newc) ?r2 = Ret ?r3"
    using setNewFollowers_Ret [OF nf, of newc] by simp
  have nl: "Bees ?r3 (Leader newc) \<noteq> None"
    using b by (simp add: mapColony_eq_None)
  have 4: "setColony ?r3 (Leader newc) newc = Ret (?r3\<lparr>Bees := ?B4\<rparr>)"
    using setColony_Ret [OF nl, of newc] by simp
  show ?thesis
    using nn b st 1 2 3 4
    by (simp add: registry_updateColony_def registry_mustFindBee_def)
qed

lemma updateColony_final_bees:
  "mapColony (\<lambda>x. x = Leader newc) newc
     (mapColony (\<lambda>x. x \<in> set (Followers newc)) newc
       (mapColony (\<lambda>x. x \<in> set (Followers oldc) \<and> \<not> Colony_Contains newc x) Colony_zero
         (mapColony (\<lambda>x. x = Leader oldc \<and> Leader oldc \<noteq> Leader newc)
            (if Colony_Contains newc (Leader oldc) then newc else Colony_zero) m))) x =
   map_option (\<lambda>b. b\<lparr>bee_Colony :=
       if Colony_Contains newc x then newc
       else if Colony_Contains oldc x then Colony_zero else bee_Colony b\<rparr>) (m x)"
  by (cases "m x") (auto simp: mapColony_def Colony_Contains_def)

subsection \<open>The claims about the registry\<close>

text \<open>
  C4. For \<^verbatim>\<open>updateColony{Old, New}\<close>: if either colony is nil, \<^verbatim>\<open>Apply\<close> returns
  \<^verbatim>\<open>ErrInvalidParam\<close> and the registry is unchanged. If both are non-nil and every bee id
  of \<open>Old\<close> and \<open>New\<close> is registered, \<^verbatim>\<open>Apply\<close> returns no error; every cell owned by
  \<open>Old\<close> in the cell store is then owned by \<open>New\<close>; every member of \<open>New\<close> (leader and
  followers) has colony \<open>New\<close>; the old leader and every old follower that \<open>New\<close> does not
  contain have the nil colony; every other bee, and \<open>Hives\<close>, \<open>BeeID\<close>, \<open>HiveID\<close>, are
  unchanged.
\<close>

theorem updateColony_rehomes_cells_and_bees:
  "(Colony_IsNil oldc \<or> Colony_IsNil newc \<longrightarrow>
      registry_Apply r (updateColony oldc newc) = Ret (None, Some ErrInvalidParam, r)) \<and>
   (\<not> Colony_IsNil oldc \<and> \<not> Colony_IsNil newc \<and>
    (\<forall>x. Colony_Contains oldc x \<or> Colony_Contains newc x \<longrightarrow> Bees r x \<noteq> None) \<longrightarrow>
      (\<exists>r'. registry_Apply r (updateColony oldc newc) = Ret (None, None, r') \<and>
         (\<forall>a k. cellStore_colony (Store r) a k = Some oldc \<longrightarrow>
                 cellStore_colony (Store r') a k = Some newc) \<and>
         (\<forall>x. Bees r' x =
               map_option (\<lambda>b. b\<lparr>bee_Colony :=
                   if Colony_Contains newc x then newc
                   else if Colony_Contains oldc x then Colony_zero else bee_Colony b\<rparr>)
                 (Bees r x)) \<and>
         Hives r' = Hives r \<and> BeeID r' = BeeID r \<and> HiveID r' = HiveID r))"
proof (intro conjI impI)
  assume "Colony_IsNil oldc \<or> Colony_IsNil newc"
  then show "registry_Apply r (updateColony oldc newc) = Ret (None, Some ErrInvalidParam, r)"
    by (auto simp: registry_Apply_def registry_updateColony_def)
next
  assume h: "\<not> Colony_IsNil oldc \<and> \<not> Colony_IsNil newc \<and>
    (\<forall>x. Colony_Contains oldc x \<or> Colony_Contains newc x \<longrightarrow> Bees r x \<noteq> None)"
  then obtain b where b: "Bees r (Leader newc) = Some b"
    by (auto simp: Colony_Contains_def)
  obtain s' where st: "cellStore_updateColony (Store r) (bee_App b) oldc newc = Inr s'"
    by (simp add: cellStore_updateColony_def)
  from h have nn: "\<not> Colony_IsNil oldc" "\<not> Colony_IsNil newc"
    and ex: "\<forall>x. Colony_Contains oldc x \<or> Colony_Contains newc x \<longrightarrow> Bees r x \<noteq> None"
    by simp_all
  note e = updateColony_explicit [OF nn ex st b]
  show "\<exists>r'. registry_Apply r (updateColony oldc newc) = Ret (None, None, r') \<and>
         (\<forall>a k. cellStore_colony (Store r) a k = Some oldc \<longrightarrow>
                 cellStore_colony (Store r') a k = Some newc) \<and>
         (\<forall>x. Bees r' x =
               map_option (\<lambda>b. b\<lparr>bee_Colony :=
                   if Colony_Contains newc x then newc
                   else if Colony_Contains oldc x then Colony_zero else bee_Colony b\<rparr>)
                 (Bees r x)) \<and>
         Hives r' = Hives r \<and> BeeID r' = BeeID r \<and> HiveID r' = HiveID r"
    by (simp add: registry_Apply_def e updateColony_final_bees colony_updateColony [OF st])
qed

theorem updateColony_rehomes_cells_and_bees_witness:
  "(\<exists>r'. registry_Apply
       ((newRegistry ''r'')\<lparr>Bees := [1 \<mapsto> beeOf 1 colony12, 2 \<mapsto> beeOf 2 colony12,
                                      3 \<mapsto> beeOf 3 Colony_zero],
                             Store := [((''a'', ''c1''), colony12)]\<rparr>)
       (updateColony colony12 colony23) = Ret (None, None, r') \<and>
       cellStore_colony (Store r') ''a'' ''c1'' = Some colony23 \<and>
       Bees r' 1 = Some (beeOf 1 Colony_zero) \<and>
       Bees r' 2 = Some (beeOf 2 colony23) \<and>
       Bees r' 3 = Some (beeOf 3 colony23)) \<and>
   registry_Apply (newRegistry ''r'') (updateColony Colony_zero colony23) =
     Ret (None, Some ErrInvalidParam, newRegistry ''r'')"
  using updateColony_rehomes_cells_and_bees
      [of colony12 colony23
          "(newRegistry ''r'')\<lparr>Bees := [1 \<mapsto> beeOf 1 colony12, 2 \<mapsto> beeOf 2 colony12,
                                         3 \<mapsto> beeOf 3 Colony_zero],
                                Store := [((''a'', ''c1''), colony12)]\<rparr>"]
    updateColony_rehomes_cells_and_bees [of Colony_zero colony23 "newRegistry ''r''"]
  by (auto simp: Colony_IsNil_def Colony_Contains_def Colony_zero_def cellStore_colony_def)

text \<open>
  C5, as the claim states it, fails: that none of \<open>ks\<close> is mapped does not make \<open>ks\<close> the
  only cells of \<open>C.Leader\<close>. Here bee 7 already owns cell \<open>c3\<close>; locking \<open>[c1]\<close> twice
  returns the colony both times and leaves the second registry unchanged, but the cells
  owned by bee 7 are \<open>c3\<close> and \<open>c1\<close>, not exactly \<open>[c1]\<close>.
\<close>

theorem lock_other_cells_counterexample:
  "registry_Apply
     ((newRegistry ''r'')\<lparr>Store := [((''a'', ''c3''), colony7)]\<rparr>)
     (lockMappedCell colony7 ''a'' [''c1'']) =
     Ret (Some (ReplyColony colony7), None,
          (newRegistry ''r'')\<lparr>Store := [((''a'', ''c3''), colony7),
                                       ((''a'', ''c1''), colony7)]\<rparr>) \<and>
   registry_Apply
     ((newRegistry ''r'')\<lparr>Store := [((''a'', ''c3''), colony7),
                                  ((''a'', ''c1''), colony7)]\<rparr>)
     (lockMappedCell colony7 ''a'' [''c1'']) =
     Ret (Some (ReplyColony colony7), None,
          (newRegistry ''r'')\<lparr>Store := [((''a'', ''c3''), colony7),
                                       ((''a'', ''c1''), colony7)]\<rparr>) \<and>
   cellStore_colony [((''a'', ''c3''), colony7)] ''a'' ''c1'' = None \<and>
   cellStore_cells [((''a'', ''c3''), colony7),
                    ((''a'', ''c1''), colony7)] 7 = [''c3'', ''c1''] \<and>
   set [''c3'', ''c1''] \<noteq> set [''c1'']"
  by (simp add: registry_Apply_def registry_lock_def newRegistry_def cellStore_colony_def
      cellStore_assign_def cellStore_cells_def assignAll_def Colony_Equals_def)


text \<open>
  C5, amended. For a colony \<open>C\<close> with non-zero leader, an app and cells \<open>ks\<close> none of which
  is mapped for that app: the request returns \<open>C\<close> with no error and every cell of \<open>ks\<close>
  is then owned by \<open>C\<close>; the same request applied again returns \<open>C\<close> and leaves the
  registry as it is. The cells owned by \<open>C.Leader\<close> are then the ones it owned before
  together with \<open>ks\<close>: exactly \<open>ks\<close>, each listed once, when it owned none before.
\<close>

theorem lock_idempotent:
  assumes l: "Leader col \<noteq> 0"
    and un: "\<forall>k \<in> set ks. cellStore_colony (Store r) app k = None"
  shows "\<exists>r'. registry_Apply r (lockMappedCell col app ks) = Ret (Some (ReplyColony col), None, r') \<and>
      (\<forall>k \<in> set ks. cellStore_colony (Store r') app k = Some col) \<and>
      registry_Apply r' (lockMappedCell col app ks) = Ret (Some (ReplyColony col), None, r') \<and>
      set (cellStore_cells (Store r') (Leader col)) =
        set (cellStore_cells (Store r) (Leader col)) \<union> set ks \<and>
      (cellStore_cells (Store r) (Leader col) = [] \<longrightarrow>
         distinct (cellStore_cells (Store r') (Leader col)))"
proof -
  let ?s' = "assignAll app col ks (Store r)"
  let ?r' = "r\<lparr>Store := ?s'\<rparr>"
  have first: "registry_Apply r (lockMappedCell col app ks) = Ret (Some (ReplyColony col), None, ?r')"
    using l by (simp add: registry_Apply_def registry_lock_def lockScan_unmapped [OF un])
  have owned: "\<forall>k \<in> set ks. cellStore_colony (Store ?r') app k = Some col"
    by (simp add: colony_assignAll)
  have "registry_lock ?r' col app ks = Ret (col, None, ?r')"
    using l lockScan_owned_start [OF owned]
    by (simp add: registry_lock_def assignAll_def)
  then have second:
    "registry_Apply ?r' (lockMappedCell col app ks) = Ret (Some (ReplyColony col), None, ?r')"
    by (simp add: registry_Apply_def)
  have cells: "cellStore_cells ?s' (Leader col) =
      cellStore_cells (Store r) (Leader col) @ rev (remdups (rev ks))"
    by (simp add: assignAll_fresh [OF un] cells_append cells_of_new)
  have "set (cellStore_cells (Store ?r') (Leader col)) =
        set (cellStore_cells (Store r) (Leader col)) \<union> set ks"
    by (simp add: cells)
  moreover have "cellStore_cells (Store r) (Leader col) = [] \<longrightarrow>
        distinct (cellStore_cells (Store ?r') (Leader col))"
    by (simp add: cells)
  ultimately show ?thesis
    using first owned second by blast
qed

theorem lock_idempotent_witness:
  "registry_Apply (newRegistry ''r'')
     (lockMappedCell colony7 ''a'' [''c1'', ''c2'']) =
     Ret (Some (ReplyColony colony7), None,
          (newRegistry ''r'')\<lparr>Store := [((''a'', ''c1''), colony7),
                                       ((''a'', ''c2''), colony7)]\<rparr>) \<and>
   registry_Apply
     ((newRegistry ''r'')\<lparr>Store := [((''a'', ''c1''), colony7),
                                  ((''a'', ''c2''), colony7)]\<rparr>)
     (lockMappedCell colony7 ''a'' [''c1'', ''c2'']) =
     Ret (Some (ReplyColony colony7), None,
          (newRegistry ''r'')\<lparr>Store := [((''a'', ''c1''), colony7),
                                       ((''a'', ''c2''), colony7)]\<rparr>) \<and>
   cellStore_cells [((''a'', ''c1''), colony7),
                    ((''a'', ''c2''), colony7)] 7 = [''c1'', ''c2'']"
  using lock_idempotent [of colony7 "[''c1'', ''c2'']"
      "newRegistry ''r''" "''a''"]
  by (simp add: registry_Apply_def registry_lock_def newRegistry_def cellStore_colony_def
      cellStore_assign_def cellStore_cells_def assignAll_def Colony_Equals_def newCellStore_def)



text \<open>
  C6. For an \<^verbatim>\<open>addBee(info)\<close> request with \<open>info.ID\<close> non-zero and at most \<open>BeeID\<close>:
  when a bee with that id is registered, \<^verbatim>\<open>Apply\<close> returns \<^verbatim>\<open>ErrDuplicateBee\<close> and the
  whole registry is unchanged; when none is, \<^verbatim>\<open>Apply\<close> returns no error and the bee is
  stored in \<open>Bees\<close> under its id, everything else unchanged.
\<close>

theorem addBee_duplicate_or_inserted:
  assumes "bee_ID info \<noteq> 0" and "bee_ID info \<le> BeeID r"
  shows "(Bees r (bee_ID info) \<noteq> None \<longrightarrow>
            registry_Apply r (addBee info) = Ret (None, Some ErrDuplicateBee, r)) \<and>
         (Bees r (bee_ID info) = None \<longrightarrow>
            (\<exists>r'. registry_Apply r (addBee info) = Ret (None, None, r') \<and>
                  Bees r' (bee_ID info) = Some info \<and>
                  r' = r\<lparr>Bees := (Bees r)(bee_ID info \<mapsto> info)\<rparr>))"
  using assms by (auto simp: registry_Apply_def registry_addBee_def Nil_ID_def)

theorem addBee_duplicate_or_inserted_witness:
  "registry_Apply ((newRegistry ''r'')\<lparr>BeeID := 5\<rparr>)
      (addBee \<lparr>bee_ID = 5, bee_Hive = 1, bee_App = ''x'', bee_Colony = Colony_zero,
               bee_Detached = False\<rparr>)
    = Ret (None, None, (newRegistry ''r'')\<lparr>BeeID := 5,
         Bees := [5 \<mapsto> \<lparr>bee_ID = 5, bee_Hive = 1, bee_App = ''x'', bee_Colony = Colony_zero,
                         bee_Detached = False\<rparr>]\<rparr>)
   \<and> registry_Apply ((newRegistry ''r'')\<lparr>BeeID := 5,
         Bees := [5 \<mapsto> \<lparr>bee_ID = 5, bee_Hive = 1, bee_App = ''x'', bee_Colony = Colony_zero,
                         bee_Detached = False\<rparr>]\<rparr>)
      (addBee \<lparr>bee_ID = 5, bee_Hive = 1, bee_App = ''x'', bee_Colony = Colony_zero,
               bee_Detached = False\<rparr>)
    = Ret (None, Some ErrDuplicateBee, (newRegistry ''r'')\<lparr>BeeID := 5,
         Bees := [5 \<mapsto> \<lparr>bee_ID = 5, bee_Hive = 1, bee_App = ''x'', bee_Colony = Colony_zero,
                         bee_Detached = False\<rparr>]\<rparr>)"
  using addBee_duplicate_or_inserted
      [of "\<lparr>bee_ID = 5, bee_Hive = 1, bee_App = ''x'', bee_Colony = Colony_zero,
             bee_Detached = False\<rparr>"
          "(newRegistry ''r'')\<lparr>BeeID := 5\<rparr>"]
    addBee_duplicate_or_inserted
      [of "\<lparr>bee_ID = 5, bee_Hive = 1, bee_App = ''x'', bee_Colony = Colony_zero,
             bee_Detached = False\<rparr>"
          "(newRegistry ''r'')\<lparr>BeeID := 5,
             Bees := [5 \<mapsto> \<lparr>bee_ID = 5, bee_Hive = 1, bee_App = ''x'', bee_Colony = Colony_zero,
                             bee_Detached = False\<rparr>]\<rparr>"]
  by (simp add: newRegistry_def)

text \<open>
  C7, as the claim states it, fails: \<^verbatim>\<open>newHiveID\<close> with a non-empty address goes through
  \<^verbatim>\<open>addHive\<close>, which is fatal when a hive with another id already has that address.
  Two \<^verbatim>\<open>newHiveID{Addr: "a"}\<close> requests on a fresh registry: the first returns 2 and
  records hive 2, the second ends the process instead of returning 3.
\<close>

theorem newHiveID_duplicate_addr_counterexample:
  "registry_Apply (newRegistry ''r'') (newHiveID ''a'') =
     Ret (Some (ReplyID 2), None,
          (newRegistry ''r'')\<lparr>HiveID := 2, Hives := [(2, \<lparr>hive_ID = 2, hive_Addr = ''a''\<rparr>)]\<rparr>) \<and>
   registry_Apply
     ((newRegistry ''r'')\<lparr>HiveID := 2, Hives := [(2, \<lparr>hive_ID = 2, hive_Addr = ''a''\<rparr>)]\<rparr>)
     (newHiveID ''a'') = Fatal"
  by (simp add: registry_Apply_def registry_newHiveID_def registry_addHive_def newRegistry_def)

text \<open>
  C7, amended. A fresh registry has \<open>HiveID = 1\<close> and its first \<^verbatim>\<open>newHiveID\<close> returns 2.
  On any registry, \<^verbatim>\<open>newHiveID{Addr}\<close> with an empty address increments \<open>HiveID\<close> (modulo
  \<open>2^64\<close>) and returns the new value, leaving the rest unchanged; with a non-empty address
  that no hive of another id has, it also records \<^verbatim>\<open>HiveInfo{ID: new id, Addr: Addr}\<close>
  under the new id; with a non-empty address that a hive of another id already has, the
  process is ended by \<^verbatim>\<open>glog.Fatalf\<close>.
\<close>

theorem newHiveID_increments_unless_duplicate_addr:
  "HiveID (newRegistry nm) = 1 \<and>
   (\<exists>r'. registry_Apply (newRegistry nm) (newHiveID addr) = Ret (Some (ReplyID 2), None, r')) \<and>
   (addr = [] \<longrightarrow>
      registry_Apply r (newHiveID addr) =
        Ret (Some (ReplyID (HiveID r + 1)), None, r\<lparr>HiveID := HiveID r + 1\<rparr>)) \<and>
   (addr \<noteq> [] \<and>
    (\<forall>e \<in> set (Hives r). hive_Addr (snd e) = addr \<longrightarrow> hive_ID (snd e) = HiveID r + 1) \<longrightarrow>
      (\<exists>r'. registry_Apply r (newHiveID addr) = Ret (Some (ReplyID (HiveID r + 1)), None, r') \<and>
            r' = r\<lparr>HiveID := HiveID r + 1,
                   Hives := AList.update (HiveID r + 1)
                              \<lparr>hive_ID = HiveID r + 1, hive_Addr = addr\<rparr> (Hives r)\<rparr> \<and>
            map_of (Hives r') (HiveID r + 1) =
              Some \<lparr>hive_ID = HiveID r + 1, hive_Addr = addr\<rparr>)) \<and>
   (addr \<noteq> [] \<and>
    (\<exists>e \<in> set (Hives r). hive_Addr (snd e) = addr \<and> hive_ID (snd e) \<noteq> HiveID r + 1) \<longrightarrow>
      registry_Apply r (newHiveID addr) = Fatal)"
  by (auto simp: registry_Apply_def registry_newHiveID_def registry_addHive_def newRegistry_def
        Let_def list_ex_iff update_conv')

theorem newHiveID_increments_unless_duplicate_addr_witness:
  "registry_Apply (newRegistry ''r'') (newHiveID ''a'') =
     Ret (Some (ReplyID 2), None,
          (newRegistry ''r'')\<lparr>HiveID := 2, Hives := [(2, \<lparr>hive_ID = 2, hive_Addr = ''a''\<rparr>)]\<rparr>) \<and>
   registry_Apply (newRegistry ''r'') (newHiveID []) =
     Ret (Some (ReplyID 2), None, (newRegistry ''r'')\<lparr>HiveID := 2\<rparr>) \<and>
   registry_Apply
     ((newRegistry ''r'')\<lparr>HiveID := 2, Hives := [(2, \<lparr>hive_ID = 2, hive_Addr = ''a''\<rparr>)]\<rparr>)
     (newHiveID ''b'') =
     Ret (Some (ReplyID 3), None,
          (newRegistry ''r'')\<lparr>HiveID := 3,
             Hives := [(2, \<lparr>hive_ID = 2, hive_Addr = ''a''\<rparr>),
                       (3, \<lparr>hive_ID = 3, hive_Addr = ''b''\<rparr>)]\<rparr>) \<and>
   registry_Apply
     ((newRegistry ''r'')\<lparr>HiveID := 3,
        Hives := [(2, \<lparr>hive_ID = 2, hive_Addr = ''a''\<rparr>),
                  (3, \<lparr>hive_ID = 3, hive_Addr = ''b''\<rparr>)]\<rparr>)
     (newHiveID ''b'') = Fatal"
  using newHiveID_increments_unless_duplicate_addr [of "''r''" "''a''" "newRegistry ''r''"]
    newHiveID_increments_unless_duplicate_addr [of "''r''" "[]" "newRegistry ''r''"]
    newHiveID_increments_unless_duplicate_addr [of "''r''" "''b''"
      "(newRegistry ''r'')\<lparr>HiveID := 2, Hives := [(2, \<lparr>hive_ID = 2, hive_Addr = ''a''\<rparr>)]\<rparr>"]
    newHiveID_increments_unless_duplicate_addr [of "''r''" "''b''"
      "(newRegistry ''r'')\<lparr>HiveID := 3,
         Hives := [(2, \<lparr>hive_ID = 2, hive_Addr = ''a''\<rparr>),
                   (3, \<lparr>hive_ID = 3, hive_Addr = ''b''\<rparr>)]\<rparr>"]
  by (simp add: newRegistry_def)

text \<open>
  C10, as the claim states it, fails: \<^verbatim>\<open>transfer\<close> assigns every cell of \<open>From.Leader\<close>
  under the app of that bee, so a cell the bee owns under another app is not reassigned.
  On a fresh registry, \<^verbatim>\<open>newBeeID\<close>, \<^verbatim>\<open>addBee\<close> of bee 1 with app \<open>a\<close>, and
  \<^verbatim>\<open>lockMappedCell\<close> of cell \<open>k\<close> for app \<open>b\<close> by the colony led by bee 1; then
  \<^verbatim>\<open>transferCells\<close> from that colony to the colony led by bee 2 returns no error, the key
  \<open>(a, k)\<close> is given to the new colony, and \<open>(b, k)\<close> is still owned by the colony of bee 1.
\<close>

theorem transfer_other_app_counterexample:
  "registry_Apply (newRegistry ''r'') newBeeID =
     Ret (Some (ReplyID 1), None, (newRegistry ''r'')\<lparr>BeeID := 1\<rparr>) \<and>
   registry_Apply ((newRegistry ''r'')\<lparr>BeeID := 1\<rparr>) (addBee (beeOf 1 Colony_zero)) =
     Ret (None, None, (newRegistry ''r'')\<lparr>BeeID := 1, Bees := [1 \<mapsto> beeOf 1 Colony_zero]\<rparr>) \<and>
   registry_Apply ((newRegistry ''r'')\<lparr>BeeID := 1, Bees := [1 \<mapsto> beeOf 1 Colony_zero]\<rparr>)
     (lockMappedCell colony1 ''b'' [''k'']) =
     Ret (Some (ReplyColony colony1), None,
          (newRegistry ''r'')\<lparr>BeeID := 1, Bees := [1 \<mapsto> beeOf 1 Colony_zero],
                                Store := [((''b'', ''k''), colony1)]\<rparr>) \<and>
   registry_Apply
     ((newRegistry ''r'')\<lparr>BeeID := 1, Bees := [1 \<mapsto> beeOf 1 Colony_zero],
                           Store := [((''b'', ''k''), colony1)]\<rparr>)
     (transferCells colony1 colony2) =
     Ret (None, None,
          (newRegistry ''r'')\<lparr>BeeID := 1, Bees := [1 \<mapsto> beeOf 1 Colony_zero],
                                Store := [((''b'', ''k''), colony1), ((''a'', ''k''), colony2)]\<rparr>) \<and>
   cellStore_colony [((''b'', ''k''), colony1), ((''a'', ''k''), colony2)] ''b'' ''k'' =
     Some colony1 \<and>
   cellStore_cells [((''b'', ''k''), colony1), ((''a'', ''k''), colony2)] 1 = [''k''] \<and>
   colony1 \<noteq> colony2"
  by (simp add: registry_Apply_def registry_newBeeID_def registry_addBee_def Nil_ID_def
      registry_lock_def registry_transfer_def newRegistry_def newCellStore_def
      cellStore_colony_def cellStore_assign_def cellStore_cells_def assignAll_def)

text \<open>
  C10, amended. \<^verbatim>\<open>transferCells{From, To}\<close>: when no bee with id \<open>From.Leader\<close> is
  registered, \<^verbatim>\<open>Apply\<close> returns \<^verbatim>\<open>ErrNoSuchBee\<close>; when the bee is registered and owns no
  cell, it returns \<^verbatim>\<open>ErrInvalidParam\<close>; in both cases the registry is unchanged. Otherwise
  it returns no error and, for every cell \<open>k\<close> owned by \<open>From.Leader\<close> under any app, the
  key made of the app of that bee and \<open>k\<close> is assigned to \<open>To\<close>: every cell the bee owns
  under its own app is reassigned to \<open>To\<close>, every key of another app keeps its owner, no
  other key of the cell store changes, and \<open>Bees\<close>, \<open>Hives\<close>, \<open>BeeID\<close> and \<open>HiveID\<close> are
  unchanged.
\<close>

theorem transfer_reassigns_cells:
  "(Bees r (Leader fromc) = None \<longrightarrow>
      registry_Apply r (transferCells fromc toc) = Ret (None, Some ErrNoSuchBee, r)) \<and>
   (Bees r (Leader fromc) \<noteq> None \<and> cellStore_cells (Store r) (Leader fromc) = [] \<longrightarrow>
      registry_Apply r (transferCells fromc toc) = Ret (None, Some ErrInvalidParam, r)) \<and>
   (\<forall>i. Bees r (Leader fromc) = Some i \<and> cellStore_cells (Store r) (Leader fromc) \<noteq> [] \<longrightarrow>
      (\<exists>r'. registry_Apply r (transferCells fromc toc) = Ret (None, None, r') \<and>
            (\<forall>a k c. ((a, k), c) \<in> set (Store r) \<and> Leader c = Leader fromc \<longrightarrow>
                      cellStore_colony (Store r') (bee_App i) k = Some toc) \<and>
            (\<forall>a k. \<not> (a = bee_App i \<and> k \<in> set (cellStore_cells (Store r) (Leader fromc))) \<longrightarrow>
                    cellStore_colony (Store r') a k = cellStore_colony (Store r) a k) \<and>
            (\<forall>k c. cellStore_colony (Store r) (bee_App i) k = Some c \<and>
                    Leader c = Leader fromc \<longrightarrow>
                    cellStore_colony (Store r') (bee_App i) k = Some toc) \<and>
            (\<forall>a k. a \<noteq> bee_App i \<longrightarrow>
                    cellStore_colony (Store r') a k = cellStore_colony (Store r) a k) \<and>
            Bees r' = Bees r \<and> Hives r' = Hives r \<and> BeeID r' = BeeID r \<and>
            HiveID r' = HiveID r))"
  by (auto simp: registry_Apply_def registry_transfer_def Let_def colony_assignAll
        dest: owned_cell_listed colony_owned_listed)

theorem transfer_reassigns_cells_witness:
  "registry_Apply
     ((newRegistry ''r'')\<lparr>Bees := [7 \<mapsto> bee7], Store := [((''a'', ''c1''), colony7)]\<rparr>)
     (transferCells colony7 colony8) =
     Ret (None, None,
          (newRegistry ''r'')\<lparr>Bees := [7 \<mapsto> bee7], Store := [((''a'', ''c1''), colony8)]\<rparr>) \<and>
   registry_Apply (newRegistry ''r'') (transferCells colony7 colony8) =
     Ret (None, Some ErrNoSuchBee, newRegistry ''r'') \<and>
   registry_Apply ((newRegistry ''r'')\<lparr>Bees := [7 \<mapsto> bee7]\<rparr>) (transferCells colony7 colony8) =
     Ret (None, Some ErrInvalidParam, (newRegistry ''r'')\<lparr>Bees := [7 \<mapsto> bee7]\<rparr>) \<and>
   registry_Apply
     ((newRegistry ''r'')\<lparr>Bees := [1 \<mapsto> beeOf 1 Colony_zero],
                           Store := [((''b'', ''k''), colony1)]\<rparr>)
     (transferCells colony1 colony2) =
     Ret (None, None,
          (newRegistry ''r'')\<lparr>Bees := [1 \<mapsto> beeOf 1 Colony_zero],
                                Store := [((''b'', ''k''), colony1), ((''a'', ''k''), colony2)]\<rparr>)"
  using transfer_reassigns_cells
      [of "(newRegistry ''r'')\<lparr>Bees := [7 \<mapsto> bee7], Store := [((''a'', ''c1''), colony7)]\<rparr>"
          colony7 colony8]
    transfer_reassigns_cells [of "newRegistry ''r''" colony7 colony8]
    transfer_reassigns_cells [of "(newRegistry ''r'')\<lparr>Bees := [7 \<mapsto> bee7]\<rparr>" colony7 colony8]
    transfer_reassigns_cells
      [of "(newRegistry ''r'')\<lparr>Bees := [1 \<mapsto> beeOf 1 Colony_zero],
                                 Store := [((''b'', ''k''), colony1)]\<rparr>"
          colony1 colony2]
  by (simp add: newRegistry_def newCellStore_def cellStore_cells_def registry_Apply_def
      registry_transfer_def assignAll_def cellStore_assign_def)

section \<open>Properties of the node\<close>

subsection \<open>Auxiliary facts\<close>

lemma line_call_delivers:
  "reqs l (res_ID res) = Some ch \<Longrightarrow> chans (line_call l res) ch = Some res"
  by (simp add: line_call_def)

lemma line_call_other:
  "res_ID res \<noteq> rid \<Longrightarrow> reqs (line_call l res) rid = reqs l rid"
  by (simp add: line_call_def split: option.splits)

lemma applyEntry_keeps_slot:
  assumes "applyEntry D n e' = Ret n'"
    and "\<forall>q. DecodeRequest D (e_Data e') = Some q \<longrightarrow> req_ID q \<noteq> rid"
  shows "reqs (line n') rid = reqs (line n) rid"
  using assms
  by (auto simp: applyEntry_def line_call_other split: if_splits option.splits outcome.splits)

lemma Start_old_keeps_slot:
  assumes "Start_old_applyNormal D n e' = Ret n'"
    and "\<forall>q. DecodeRequest D (e_Data e') = Some q \<longrightarrow> req_ID q \<noteq> rid"
  shows "reqs (line n') rid = reqs (line n) rid"
  using assms
  by (auto simp: Start_old_applyNormal_def line_call_other split: option.splits outcome.splits)

lemma notifyStore_line:
  "notifyStore D n cc info = Ret (err, n') \<Longrightarrow> line n' = line n"
  by (auto simp: notifyStore_def split: outcome.splits)

lemma applyConfChange_keeps_slot:
  assumes r: "applyConfChange D n e' confs = Ret (x, cs, n')"
    and o: "\<forall>cc q. UnmarshalConfChange D (e_Data e') = Some cc \<and>
              DecodeRequest D (cc_Context cc) = Some q \<longrightarrow> req_ID q \<noteq> rid"
  shows "reqs (line n') rid = reqs (line n) rid"
proof -
  obtain cc where u: "UnmarshalConfChange D (e_Data e') = Some cc"
    using r by (auto simp: applyConfChange_def split: option.splits)
  show ?thesis
  proof (cases "validConfChange cc confs")
    case Fatal
    with r u show ?thesis by (simp add: applyConfChange_def)
  next
    case (Ret v)
    show ?thesis
    proof (cases v)
      case (Some err)
      with r u Ret show ?thesis
        by (auto simp: applyConfChange_def split: prod.splits)
    next
      case None
      with r u Ret o show ?thesis
        by (auto simp: applyConfChange_def line_call_other
            split: prod.splits if_splits option.splits outcome.splits
            dest!: notifyStore_line)
    qed
  qed
qed

lemma containsNode_iff: "containsNode nodes x \<longleftrightarrow> x \<in> set nodes"
  by (induction nodes) auto

lemma validConfChange_invalid:
  "\<not> validPerSpec cc confs \<Longrightarrow> \<exists>err. validConfChange cc confs = Ret (Some err)"
  by (auto simp: validPerSpec_def validConfChange_def etcdraft_None_def containsNode_iff
      split: ConfChangeType.splits)

lemma validConfChange_valid:
  "validConfChange cc confs = Ret None \<Longrightarrow> validPerSpec cc confs"
  by (auto simp: validPerSpec_def validConfChange_def etcdraft_None_def containsNode_iff
      split: ConfChangeType.splits if_splits)

lemma notifyStore_engine:
  "notifyStore D n cc info = Ret (err, n') \<Longrightarrow> engine n' = engine n \<and> line n' = line n"
  by (auto simp: notifyStore_def split: outcome.splits)

lemma applyConfChange_applied:
  assumes u: "UnmarshalConfChange D (e_Data e) = Some cc"
    and r: "applyConfChange D n e confs = Ret (None, cs, n')"
  shows "validPerSpec cc confs \<and>
         engine n' = snd (Engine_ApplyConfChange D (engine n) cc) \<and>
         cs = fst (Engine_ApplyConfChange D (engine n) cc)"
proof -
  have v: "validConfChange cc confs = Ret None"
    using u r by (auto simp: applyConfChange_def split: outcome.splits option.splits prod.splits)
  obtain cs0 eng where a: "Engine_ApplyConfChange D (engine n) cc = (cs0, eng)"
    by (cases "Engine_ApplyConfChange D (engine n) cc")
  have "engine n' = eng \<and> cs = cs0"
    using u r v a
    by (auto simp: applyConfChange_def split: outcome.splits option.splits prod.splits if_splits
        dest!: notifyStore_engine)
  with v a show ?thesis by (simp add: validConfChange_valid)
qed

lemma loop_invariant:
  "loop_run s evs = Some s' \<Longrightarrow> in_flight s = (if ready_nil s then 1 else 0) \<Longrightarrow>
   in_flight s' = (if ready_nil s' then 1 else 0) \<and> oneReadyAtATime (ready_nil s) evs"
proof (induction evs arbitrary: s)
  case Nil
  then show ?case by simp
next
  case (Cons ev evs)
  then obtain s1 where st: "loop_step s ev = Some s1" and run: "loop_run s1 evs = Some s'"
    by (auto split: option.splits)
  have inv1: "in_flight s1 = (if ready_nil s1 then 1 else 0)"
    using st Cons.prems(2) by (cases ev) (auto simp: loop_step_def split: if_splits)
  note IH = Cons.IH [OF run inv1]
  show ?case
    using st IH Cons.prems(2)
    by (cases ev) (auto simp: loop_step_def split: if_splits)
qed

subsection \<open>The claims about the node\<close>

text \<open>
  C1, as the claim states it, fails on two inputs.
  A request whose data is nil: \<^verbatim>\<open>applyEntry\<close> returns before \<^verbatim>\<open>Store.Apply\<close> and before
  the line is called. \<^verbatim>\<open>Process(ctx, nil)\<close> on the example node registers the wait and
  proposes the bytes \<open>[1, 7, 0]\<close>; applying the entry with these bytes leaves the node as it
  was, the reply channel stays empty, and no case of the \<^verbatim>\<open>select\<close> can be taken until the
  context is done or the node stops.
  A request whose id another entry carries: \<^verbatim>\<open>Process(ctx, noOp)\<close> on the same node gets
  the id \<open>{1, 7}\<close> and waits; the entry \<open>[1, 7, 2]\<close>, a \<^verbatim>\<open>newBeeID\<close> request with the same id,
  is applied first, and the reply case of the \<^verbatim>\<open>select\<close> returns its reply, the id 1, where
  \<^verbatim>\<open>Store.Apply\<close> on \<^verbatim>\<open>noOp\<close> gives nil; when the entry of the \<^verbatim>\<open>noOp\<close> request itself is
  applied nothing waits for it.
\<close>

theorem nil_request_never_answered_counterexample:
  "Process_submit registryDeps exampleNode None =
     (Waiting \<lparr>req_ID = rid17, req_Data = None\<rparr> 0 [1, 7, 0], waitingNode) \<and>
   DecodeRequest registryDeps [1, 7, 0] = Some \<lparr>req_ID = rid17, req_Data = None\<rparr> \<and>
   applyEntry registryDeps waitingNode \<lparr>e_Type = EntryNormal, e_Index = 3, e_Data = [1, 7, 0]\<rparr> =
     Ret waitingNode \<and>
   Process_select waitingNode None rid17 0 RecvReply = None \<and>
   Process_select waitingNode None rid17 0 RecvNodeDone = None \<and>
   Process_select waitingNode None rid17 0 RecvCtxDone = None \<and>
   Process_submit registryDeps exampleNode (Some (DataRequest noOp)) =
     (Waiting \<lparr>req_ID = rid17, req_Data = Some (DataRequest noOp)\<rparr> 0 [1, 7, 1], waitingNode) \<and>
   DecodeRequest registryDeps [1, 7, 2] =
     Some \<lparr>req_ID = rid17, req_Data = Some (DataRequest newBeeID)\<rparr> \<and>
   applyEntry registryDeps waitingNode \<lparr>e_Type = EntryNormal, e_Index = 3, e_Data = [1, 7, 2]\<rparr> =
     Ret answeredNode \<and>
   Process_select answeredNode None rid17 0 RecvReply =
     Some ((Some (ReplyID 1), None),
           answeredNode\<lparr>line := \<lparr>reqs = Map.empty, chans = Map.empty, nextChan = 1\<rparr>\<rparr>) \<and>
   Store_Apply registryDeps (store answeredNode) (DataRequest noOp) =
     Ret (None, None, store answeredNode) \<and>
   applyEntry registryDeps
     (answeredNode\<lparr>line := \<lparr>reqs = Map.empty, chans = Map.empty, nextChan = 1\<rparr>\<rparr>)
     \<lparr>e_Type = EntryNormal, e_Index = 4, e_Data = [1, 7, 1]\<rparr> =
     Ret (answeredNode\<lparr>line := \<lparr>reqs = Map.empty, chans = Map.empty, nextChan = 1\<rparr>\<rparr>)"
  by (simp add: Process_submit_def registryDeps_def exampleNode_def genID_def GenID_def
      exEncodeRequest_def exEncodeData_def line_wait_def line_init_def exDecodeRequest_def
      exDecodeData_def applyEntry_def Process_select_def line_call_def registry_Apply_def
      registry_newBeeID_def newRegistry_def)

text \<open>
  C1, amended. Take an entry whose data decodes to a request, and a node on whose line the
  id of the request waits with channel \<open>ch\<close>: the caller's context has not fired and no
  other entry with that id has been applied.
  Newer variant: if the entry's data is not empty, the request's data is not nil and
  \<^verbatim>\<open>Store.Apply\<close> on it returns \<open>(rep, err)\<close>, then \<^verbatim>\<open>applyEntry\<close> returns, the store is
  the one \<^verbatim>\<open>Store.Apply\<close> left, and the reply case of the \<^verbatim>\<open>select\<close> in \<^verbatim>\<open>Process\<close>
  returns \<open>rep\<close> together with \<open>err\<close> as the call's error.
  Older variant: if \<^verbatim>\<open>Store.Apply\<close> (one result) returns \<open>rep\<close>, the loop body applies the
  entry and the reply case of the \<^verbatim>\<open>select\<close> in \<^verbatim>\<open>Do\<close> returns \<open>rep\<close> and a nil error.
  An error returned by the \<^verbatim>\<open>select\<close> of \<^verbatim>\<open>Process\<close> is the Store's error (reply case),
  the context's error (context done) or \<^verbatim>\<open>ErrStopped\<close> (node done).
  If the request's data is nil, \<^verbatim>\<open>applyEntry\<close> returns the node as it is: the store is not
  called and nothing is put into a channel.
  The wait: a \<^verbatim>\<open>Process\<close> that reaches the \<^verbatim>\<open>select\<close> has encoded its request and
  registered its id on the line; one whose encoding fails returns before the line and the
  engine are touched; applying a normal entry or a conf change that carries another id, in
  either variant, leaves the wait in place; the context case of the \<^verbatim>\<open>select\<close> removes it.
\<close>

theorem applied_request_is_answered:
  assumes dec: "DecodeRequest D (e_Data e) = Some req"
    and slot: "reqs (line n) (req_ID req) = Some ch"
  shows
   "(e_Data e \<noteq> [] \<and> req_Data req = Some d \<and>
     Store_Apply D (store n) d = Ret (rep, err, st) \<longrightarrow>
       (\<exists>n1 n2. applyEntry D n e = Ret n1 \<and> store n1 = st \<and>
          Process_select n1 ctx (req_ID req) ch RecvReply =
            Some ((rep, map_option StoreError err), n2))) \<and>
    (Store_ApplyOld D (store n) (req_Data req) = Ret (rep, st) \<longrightarrow>
       (\<exists>n1 n2. Start_old_applyNormal D n e = Ret n1 \<and> store n1 = st \<and>
          Do_select n1 ctx (req_ID req) ch RecvReply = Some ((rep, None), n2))) \<and>
    (\<forall>m c x er m'. Process_select m ctx (req_ID req) ch c = Some ((x, Some er), m') \<longrightarrow>
       (c = RecvReply \<and> (\<exists>se. er = StoreError se)) \<or>
       (c = RecvCtxDone \<and> (\<exists>ce. ctx = Some ce \<and> er = CtxError ce)) \<or>
       (c = RecvNodeDone \<and> node_done m \<and> er = ErrStopped)) \<and>
    (\<forall>n0 dat r c b n1. Process_submit D n0 dat = (Waiting r c b, n1) \<longrightarrow>
       req_Data r = dat \<and> EncodeRequest D r = Some b \<and> reqs (line n1) (req_ID r) = Some c) \<and>
    (req_Data req = None \<longrightarrow> applyEntry D n e = Ret n) \<and>
    (\<forall>n0 dat n1. Process_submit D n0 dat = (EncodeFailed, n1) \<longrightarrow>
       EncodeRequest D \<lparr>req_ID = fst (genID n0), req_Data = dat\<rparr> = None \<and>
       line n1 = line n0 \<and> engine n1 = engine n0) \<and>
    (\<forall>e' n'. applyEntry D n e' = Ret n' \<and>
       (\<forall>q. DecodeRequest D (e_Data e') = Some q \<longrightarrow> req_ID q \<noteq> req_ID req) \<longrightarrow>
       reqs (line n') (req_ID req) = Some ch) \<and>
    (\<forall>e' n'. Start_old_applyNormal D n e' = Ret n' \<and>
       (\<forall>q. DecodeRequest D (e_Data e') = Some q \<longrightarrow> req_ID q \<noteq> req_ID req) \<longrightarrow>
       reqs (line n') (req_ID req) = Some ch) \<and>
    (\<forall>e' confs x cs n'. applyConfChange D n e' confs = Ret (x, cs, n') \<and>
       (\<forall>cc q. UnmarshalConfChange D (e_Data e') = Some cc \<and>
                DecodeRequest D (cc_Context cc) = Some q \<longrightarrow> req_ID q \<noteq> req_ID req) \<longrightarrow>
       reqs (line n') (req_ID req) = Some ch) \<and>
    (\<forall>m x m'. Process_select m ctx (req_ID req) ch RecvCtxDone = Some (x, m') \<longrightarrow>
       reqs (line m') (req_ID req) = None)"
proof -
  have new: "e_Data e \<noteq> [] \<and> req_Data req = Some d \<and>
     Store_Apply D (store n) d = Ret (rep, err, st) \<longrightarrow>
       (\<exists>n1 n2. applyEntry D n e = Ret n1 \<and> store n1 = st \<and>
          Process_select n1 ctx (req_ID req) ch RecvReply =
            Some ((rep, map_option StoreError err), n2))"
  proof
    assume h: "e_Data e \<noteq> [] \<and> req_Data req = Some d \<and>
       Store_Apply D (store n) d = Ret (rep, err, st)"
    let ?res = "\<lparr>res_ID = req_ID req, res_Data = rep, res_Err = err\<rparr>"
    let ?n1 = "n\<lparr>store := st, line := line_call (line n) ?res\<rparr>"
    have a: "applyEntry D n e = Ret ?n1"
      using h dec by (simp add: applyEntry_def)
    have "chans (line ?n1) ch = Some ?res"
      using slot line_call_delivers [of "line n" ?res ch] by simp
    then have "\<exists>n2. Process_select ?n1 ctx (req_ID req) ch RecvReply =
        Some ((rep, map_option StoreError err), n2)"
      by (simp add: Process_select_def)
    with a show "\<exists>n1 n2. applyEntry D n e = Ret n1 \<and> store n1 = st \<and>
        Process_select n1 ctx (req_ID req) ch RecvReply =
          Some ((rep, map_option StoreError err), n2)"
      by force
  qed
  have old: "Store_ApplyOld D (store n) (req_Data req) = Ret (rep, st) \<longrightarrow>
       (\<exists>n1 n2. Start_old_applyNormal D n e = Ret n1 \<and> store n1 = st \<and>
          Do_select n1 ctx (req_ID req) ch RecvReply = Some ((rep, None), n2))"
  proof
    assume h: "Store_ApplyOld D (store n) (req_Data req) = Ret (rep, st)"
    let ?res = "\<lparr>res_ID = req_ID req, res_Data = rep, res_Err = None\<rparr>"
    let ?n1 = "n\<lparr>store := st, line := line_call (line n) ?res\<rparr>"
    have a: "Start_old_applyNormal D n e = Ret ?n1"
      using h dec by (simp add: Start_old_applyNormal_def)
    have "chans (line ?n1) ch = Some ?res"
      using slot line_call_delivers [of "line n" ?res ch] by simp
    then have "\<exists>n2. Do_select ?n1 ctx (req_ID req) ch RecvReply = Some ((rep, None), n2)"
      by (simp add: Do_select_def)
    with a show "\<exists>n1 n2. Start_old_applyNormal D n e = Ret n1 \<and> store n1 = st \<and>
        Do_select n1 ctx (req_ID req) ch RecvReply = Some ((rep, None), n2)"
      by force
  qed
  have errs: "\<forall>m c x er m'. Process_select m ctx (req_ID req) ch c = Some ((x, Some er), m') \<longrightarrow>
       (c = RecvReply \<and> (\<exists>se. er = StoreError se)) \<or>
       (c = RecvCtxDone \<and> (\<exists>ce. ctx = Some ce \<and> er = CtxError ce)) \<or>
       (c = RecvNodeDone \<and> node_done m \<and> er = ErrStopped)"
  proof (intro allI impI)
    fix m c x er m'
    assume "Process_select m ctx (req_ID req) ch c = Some ((x, Some er), m')"
    then show "(c = RecvReply \<and> (\<exists>se. er = StoreError se)) \<or>
         (c = RecvCtxDone \<and> (\<exists>ce. ctx = Some ce \<and> er = CtxError ce)) \<or>
         (c = RecvNodeDone \<and> node_done m \<and> er = ErrStopped)"
      by (cases c) (auto simp: Process_select_def split: option.splits if_splits)
  qed
  have sub: "\<forall>n0 dat r c b n1. Process_submit D n0 dat = (Waiting r c b, n1) \<longrightarrow>
       req_Data r = dat \<and> EncodeRequest D r = Some b \<and> reqs (line n1) (req_ID r) = Some c"
    by (auto simp: Process_submit_def line_wait_def split: prod.splits option.splits)
  have nil: "req_Data req = None \<longrightarrow> applyEntry D n e = Ret n"
    using dec by (simp add: applyEntry_def)
  have enc: "\<forall>n0 dat n1. Process_submit D n0 dat = (EncodeFailed, n1) \<longrightarrow>
       EncodeRequest D \<lparr>req_ID = fst (genID n0), req_Data = dat\<rparr> = None \<and>
       line n1 = line n0 \<and> engine n1 = engine n0"
    by (auto simp: Process_submit_def genID_def line_wait_def
        split: prod.splits option.splits)
  have k1: "\<forall>e' n'. applyEntry D n e' = Ret n' \<and>
       (\<forall>q. DecodeRequest D (e_Data e') = Some q \<longrightarrow> req_ID q \<noteq> req_ID req) \<longrightarrow>
       reqs (line n') (req_ID req) = Some ch"
    using slot applyEntry_keeps_slot [of D n _ _ "req_ID req"] by metis
  have k2: "\<forall>e' n'. Start_old_applyNormal D n e' = Ret n' \<and>
       (\<forall>q. DecodeRequest D (e_Data e') = Some q \<longrightarrow> req_ID q \<noteq> req_ID req) \<longrightarrow>
       reqs (line n') (req_ID req) = Some ch"
    using slot Start_old_keeps_slot [of D n _ _ "req_ID req"] by metis
  have k3: "\<forall>e' confs x cs n'. applyConfChange D n e' confs = Ret (x, cs, n') \<and>
       (\<forall>cc q. UnmarshalConfChange D (e_Data e') = Some cc \<and>
                DecodeRequest D (cc_Context cc) = Some q \<longrightarrow> req_ID q \<noteq> req_ID req) \<longrightarrow>
       reqs (line n') (req_ID req) = Some ch"
  proof (intro allI impI)
    fix e' confs x cs n'
    assume h: "applyConfChange D n e' confs = Ret (x, cs, n') \<and>
       (\<forall>cc q. UnmarshalConfChange D (e_Data e') = Some cc \<and>
                DecodeRequest D (cc_Context cc) = Some q \<longrightarrow> req_ID q \<noteq> req_ID req)"
    then have "reqs (line n') (req_ID req) = reqs (line n) (req_ID req)"
      using applyConfChange_keeps_slot [of D n e' confs x cs n' "req_ID req"] by blast
    with slot show "reqs (line n') (req_ID req) = Some ch" by simp
  qed
  have can: "\<forall>m x m'. Process_select m ctx (req_ID req) ch RecvCtxDone = Some (x, m') \<longrightarrow>
       reqs (line m') (req_ID req) = None"
    by (auto simp: Process_select_def line_cancel_def split: option.splits)
  from new old errs sub nil enc k1 k2 k3 can show ?thesis by blast
qed

theorem applied_request_is_answered_witness:
  "Process_submit registryDeps exampleNode (Some (DataRequest newBeeID)) =
     (Waiting \<lparr>req_ID = rid17, req_Data = Some (DataRequest newBeeID)\<rparr> 0 [1, 7, 2], waitingNode) \<and>
   (\<exists>n1 n2. applyEntry registryDeps waitingNode
               \<lparr>e_Type = EntryNormal, e_Index = 3, e_Data = [1, 7, 2]\<rparr> = Ret n1 \<and>
            store n1 = (newRegistry ''r'')\<lparr>BeeID := 1\<rparr> \<and>
            Process_select n1 None rid17 0 RecvReply = Some ((Some (ReplyID 1), None), n2)) \<and>
   (\<exists>n1 n2. applyEntry registryDeps waitingNode
               \<lparr>e_Type = EntryNormal, e_Index = 3, e_Data = [1, 7, 3]\<rparr> = Ret n1 \<and>
            store n1 = newRegistry ''r'' \<and>
            Process_select n1 None rid17 0 RecvReply =
              Some ((None, Some (StoreError ErrUnsupportedRequest)), n2)) \<and>
   (\<exists>n1 n2. Start_old_applyNormal registryDeps waitingNode
               \<lparr>e_Type = EntryNormal, e_Index = 3, e_Data = [1, 7, 2]\<rparr> = Ret n1 \<and>
            store n1 = (newRegistry ''r'')\<lparr>BeeID := 1\<rparr> \<and>
            Do_select n1 None rid17 0 RecvReply = Some ((Some (ReplyID 1), None), n2)) \<and>
   applyEntry registryDeps waitingNode \<lparr>e_Type = EntryNormal, e_Index = 3, e_Data = [1, 7, 0]\<rparr> =
     Ret waitingNode"
proof -
  let ?e2 = "\<lparr>e_Type = EntryNormal, e_Index = 3, e_Data = [1, 7, 2]\<rparr>"
  let ?e3 = "\<lparr>e_Type = EntryNormal, e_Index = 3, e_Data = [1, 7, 3]\<rparr>"
  let ?q2 = "\<lparr>req_ID = rid17, req_Data = Some (DataRequest newBeeID)\<rparr>"
  let ?q3 = "\<lparr>req_ID = rid17, req_Data = Some (DataRequest unknownRequest)\<rparr>"
  have sub: "Process_submit registryDeps exampleNode (Some (DataRequest newBeeID)) =
      (Waiting ?q2 0 [1, 7, 2], waitingNode)"
    by (simp add: Process_submit_def registryDeps_def exampleNode_def genID_def GenID_def
        exEncodeRequest_def exEncodeData_def line_wait_def line_init_def)
  have dec2: "DecodeRequest registryDeps (e_Data ?e2) = Some ?q2"
    and dec3: "DecodeRequest registryDeps (e_Data ?e3) = Some ?q3"
    by (simp_all add: registryDeps_def exDecodeRequest_def exDecodeData_def)
  have slot2: "reqs (line waitingNode) (req_ID ?q2) = Some 0"
    and slot3: "reqs (line waitingNode) (req_ID ?q3) = Some 0"
    by simp_all
  have new2: "e_Data ?e2 \<noteq> [] \<and> req_Data ?q2 = Some (DataRequest newBeeID) \<and>
      Store_Apply registryDeps (store waitingNode) (DataRequest newBeeID) =
        Ret (Some (ReplyID 1), None, (newRegistry ''r'')\<lparr>BeeID := 1\<rparr>)"
    by (simp add: registryDeps_def exampleNode_def registry_Apply_def registry_newBeeID_def
        newRegistry_def)
  have new3: "e_Data ?e3 \<noteq> [] \<and> req_Data ?q3 = Some (DataRequest unknownRequest) \<and>
      Store_Apply registryDeps (store waitingNode) (DataRequest unknownRequest) =
        Ret (None, Some ErrUnsupportedRequest, newRegistry ''r'')"
    by (simp add: registryDeps_def exampleNode_def registry_Apply_def)
  have old2: "Store_ApplyOld registryDeps (store waitingNode) (req_Data ?q2) =
      Ret (Some (ReplyID 1), (newRegistry ''r'')\<lparr>BeeID := 1\<rparr>)"
    by (simp add: registryDeps_def exampleNode_def registry_Apply_def registry_newBeeID_def
        newRegistry_def)
  from applied_request_is_answered [OF dec2 slot2, of "DataRequest newBeeID"
      "Some (ReplyID 1)" None "(newRegistry ''r'')\<lparr>BeeID := 1\<rparr>" None] new2 old2
  have a: "\<exists>n1 n2. applyEntry registryDeps waitingNode ?e2 = Ret n1 \<and>
            store n1 = (newRegistry ''r'')\<lparr>BeeID := 1\<rparr> \<and>
            Process_select n1 None rid17 0 RecvReply = Some ((Some (ReplyID 1), None), n2)"
    and b: "\<exists>n1 n2. Start_old_applyNormal registryDeps waitingNode ?e2 = Ret n1 \<and>
            store n1 = (newRegistry ''r'')\<lparr>BeeID := 1\<rparr> \<and>
            Do_select n1 None rid17 0 RecvReply = Some ((Some (ReplyID 1), None), n2)"
    by auto
  from applied_request_is_answered [OF dec3 slot3, of "DataRequest unknownRequest"
      None "Some ErrUnsupportedRequest" "newRegistry ''r''" None] new3
  have c: "\<exists>n1 n2. applyEntry registryDeps waitingNode ?e3 = Ret n1 \<and>
            store n1 = newRegistry ''r'' \<and>
            Process_select n1 None rid17 0 RecvReply =
              Some ((None, Some (StoreError ErrUnsupportedRequest)), n2)"
    by auto
  have dec0: "DecodeRequest registryDeps
        (e_Data \<lparr>e_Type = EntryNormal, e_Index = 3, e_Data = [1, 7, 0]\<rparr>) =
      Some \<lparr>req_ID = rid17, req_Data = None\<rparr>"
    by (simp add: registryDeps_def exDecodeRequest_def exDecodeData_def)
  have slot0: "reqs (line waitingNode) (req_ID \<lparr>req_ID = rid17, req_Data = None\<rparr>) = Some 0"
    by simp
  from applied_request_is_answered [OF dec0 slot0, of "DataRequest noOp" None None
      "newRegistry ''r''" None]
  have d: "applyEntry registryDeps waitingNode
      \<lparr>e_Type = EntryNormal, e_Index = 3, e_Data = [1, 7, 0]\<rparr> = Ret waitingNode"
    by auto
  from sub a b c d show ?thesis by blast
qed

text \<open>
  C2. The claim says that the seed \<^verbatim>\<open>lastIndex + 2*snapCount\<close> makes every sequence
  number issued after a restart exceed every sequence number persisted before it. The
  code at a concrete input: \<open>snapCount = 1\<close>, a new node (no WAL) is seeded with 2 and
  issues 3, 4, 5, 6, 7; the request numbered 7 is the only one of them appended to the log,
  at index 3. After a restart from that WAL the newer variant is seeded with \<open>3 + 2 = 5\<close>
  and issues 6, then 7: the first number does not exceed the persisted 7 and the second
  request has the persisted request's id. raft/node.go is seeded with 3 and issues 7 as
  its fourth number.
\<close>

theorem restart_seed_collision:
  "NewNode_gen None 1 = Ret 2 \<and>
   issuedSeqs 5 2 = [3, 4, 5, 6, 7] \<and>
   DecodeRequest registryDeps [1, 7, 2] =
     Some \<lparr>req_ID = rid17, req_Data = Some (DataRequest newBeeID)\<rparr> \<and>
   NewNode_gen
     (Some [\<lparr>e_Type = EntryConfChange, e_Index = 1, e_Data = [0, 1]\<rparr>,
            \<lparr>e_Type = EntryNormal, e_Index = 2, e_Data = []\<rparr>,
            \<lparr>e_Type = EntryNormal, e_Index = 3, e_Data = [1, 7, 2]\<rparr>]) 1 = Ret 5 \<and>
   issuedSeqs 2 5 = [6, 7] \<and>
   \<not> (7 :: uint64) < hd (issuedSeqs 2 5) \<and>
   fst (genID (exampleNode\<lparr>gen := 6\<rparr>)) = rid17 \<and>
   NewNode_gen_old
     (Some [\<lparr>e_Type = EntryConfChange, e_Index = 1, e_Data = [0, 1]\<rparr>,
            \<lparr>e_Type = EntryNormal, e_Index = 2, e_Data = []\<rparr>,
            \<lparr>e_Type = EntryNormal, e_Index = 3, e_Data = [1, 7, 2]\<rparr>]) = Ret 3 \<and>
   issuedSeqs 4 3 = [4, 5, 6, 7]"
proof -
  have "issuedSeqs 5 2 = [3, 4, 5, 6, 7]" "issuedSeqs 2 5 = [6, 7]"
    "issuedSeqs 4 3 = [4, 5, 6, 7]"
    by (simp_all add: GenID_def eval_nat_numeral)
  then show ?thesis
    by (simp add: NewNode_gen_def NewNode_gen_old_def NewNode_lastIndex_def NewSeqIDGen_def
        GenID_def genID_def registryDeps_def exDecodeRequest_def exDecodeData_def
        exampleNode_def)
qed

text \<open>
  C3. For a committed conf-change entry whose data unmarshals to \<open>cc\<close>: if \<open>cc\<close> is not
  valid against the current \<^verbatim>\<open>ConfState\<close> (node id zero; AddNode of a member; RemoveNode
  of a non-member), \<^verbatim>\<open>applyConfChange\<close> returns an error, the engine is given \<open>cc\<close> with
  its node id set to zero, the \<^verbatim>\<open>ConfState\<close>, the store and the line are untouched, and
  \<^verbatim>\<open>apply\<close> goes on past the entry without \<^verbatim>\<open>shouldStop\<close>. Whenever
  \<^verbatim>\<open>applyConfChange\<close> returns without error, which is the only way the Store is
  notified, \<open>cc\<close> is valid and the engine was given \<open>cc\<close> itself.
\<close>

theorem invalid_conf_change_neutered:
  assumes u: "UnmarshalConfChange D (e_Data e) = Some cc"
  shows "(\<not> validPerSpec cc confs \<longrightarrow>
            (\<exists>err. applyConfChange D n e confs =
                Ret (Some err, confs,
                     n\<lparr>engine := snd (Engine_ApplyConfChange D (engine n)
                                        (cc\<lparr>cc_NodeID := 0\<rparr>))\<rparr>)) \<and>
            (e_Type e = EntryConfChange \<longrightarrow>
               Node_apply_loop D [e] a confs n =
                 Ret (e_Index e, False, confs,
                      n\<lparr>engine := snd (Engine_ApplyConfChange D (engine n)
                                         (cc\<lparr>cc_NodeID := 0\<rparr>))\<rparr>) \<and>
               Node_apply D [e] confs n =
                 Ret (e_Index e, False, confs,
                      n\<lparr>engine := snd (Engine_ApplyConfChange D (engine n)
                                         (cc\<lparr>cc_NodeID := 0\<rparr>))\<rparr>))) \<and>
         (\<forall>cs n'. applyConfChange D n e confs = Ret (None, cs, n') \<longrightarrow>
            validPerSpec cc confs \<and>
            engine n' = snd (Engine_ApplyConfChange D (engine n) cc) \<and>
            cs = fst (Engine_ApplyConfChange D (engine n) cc))"
proof (intro conjI impI allI)
  assume inv: "\<not> validPerSpec cc confs"
  then obtain err where v: "validConfChange cc confs = Ret (Some err)"
    using validConfChange_invalid by blast
  have r: "applyConfChange D n e confs =
      Ret (Some err, confs,
           n\<lparr>engine := snd (Engine_ApplyConfChange D (engine n) (cc\<lparr>cc_NodeID := 0\<rparr>))\<rparr>)"
    using u v by (simp add: applyConfChange_def etcdraft_None_def split: prod.splits)
  then show "\<exists>err. applyConfChange D n e confs =
      Ret (Some err, confs,
           n\<lparr>engine := snd (Engine_ApplyConfChange D (engine n) (cc\<lparr>cc_NodeID := 0\<rparr>))\<rparr>)"
    by blast
  assume "e_Type e = EntryConfChange"
  with r show "Node_apply_loop D [e] a confs n =
      Ret (e_Index e, False, confs,
           n\<lparr>engine := snd (Engine_ApplyConfChange D (engine n) (cc\<lparr>cc_NodeID := 0\<rparr>))\<rparr>)"
    and "Node_apply D [e] confs n =
      Ret (e_Index e, False, confs,
           n\<lparr>engine := snd (Engine_ApplyConfChange D (engine n) (cc\<lparr>cc_NodeID := 0\<rparr>))\<rparr>)"
    by (simp_all add: Node_apply_def)
next
  fix cs n'
  assume "applyConfChange D n e confs = Ret (None, cs, n')"
  from applyConfChange_applied [OF u this]
  show "validPerSpec cc confs"
    and "engine n' = snd (Engine_ApplyConfChange D (engine n) cc)"
    and "cs = fst (Engine_ApplyConfChange D (engine n) cc)"
    by simp_all
qed

theorem invalid_conf_change_neutered_witness:
  "\<not> validPerSpec addNode1 \<lparr>Nodes = [1]\<rparr> \<and>
   applyConfChange registryDeps memberNode
     \<lparr>e_Type = EntryConfChange, e_Index = 4, e_Data = [0, 1]\<rparr> \<lparr>Nodes = [1]\<rparr> =
     Ret (Some (IsDuplicate 1), \<lparr>Nodes = [1]\<rparr>,
          memberNode\<lparr>engine := [addNode1, addNode1\<lparr>cc_NodeID := 0\<rparr>]\<rparr>) \<and>
   Node_apply_loop registryDeps [\<lparr>e_Type = EntryConfChange, e_Index = 4, e_Data = [0, 1]\<rparr>] 3
     \<lparr>Nodes = [1]\<rparr> memberNode =
     Ret (4, False, \<lparr>Nodes = [1]\<rparr>,
          memberNode\<lparr>engine := [addNode1, addNode1\<lparr>cc_NodeID := 0\<rparr>]\<rparr>) \<and>
   Node_apply registryDeps [\<lparr>e_Type = EntryConfChange, e_Index = 4, e_Data = [0, 1]\<rparr>]
     \<lparr>Nodes = [1]\<rparr> memberNode =
     Ret (4, False, \<lparr>Nodes = [1]\<rparr>,
          memberNode\<lparr>engine := [addNode1, addNode1\<lparr>cc_NodeID := 0\<rparr>]\<rparr>) \<and>
   applyConfChange registryDeps memberNode
     \<lparr>e_Type = EntryConfChange, e_Index = 5, e_Data = [0, 4, 9, 4]\<rparr> \<lparr>Nodes = [1]\<rparr> =
     Ret (None, \<lparr>Nodes = [1, 4]\<rparr>,
          memberNode\<lparr>engine := [addNode1, addNode1\<lparr>cc_NodeID := 4, cc_Context := [9, 4]\<rparr>],
                      store := (newRegistry ''r'')
                                 \<lparr>Hives := [(4, \<lparr>hive_ID = 4, hive_Addr = ''d''\<rparr>)]\<rparr>\<rparr>) \<and>
   validPerSpec (addNode1\<lparr>cc_NodeID := 4, cc_Context := [9, 4]\<rparr>) \<lparr>Nodes = [1]\<rparr>"
proof -
  let ?e1 = "\<lparr>e_Type = EntryConfChange, e_Index = 4, e_Data = [0, 1]\<rparr>"
  let ?e4 = "\<lparr>e_Type = EntryConfChange, e_Index = 5, e_Data = [0, 4, 9, 4]\<rparr>"
  have u1: "UnmarshalConfChange registryDeps (e_Data ?e1) = Some addNode1"
    and u4: "UnmarshalConfChange registryDeps (e_Data ?e4) =
               Some (addNode1\<lparr>cc_NodeID := 4, cc_Context := [9, 4]\<rparr>)"
    by (simp_all add: registryDeps_def exUnmarshalConfChange_def)
  have inv: "\<not> validPerSpec addNode1 \<lparr>Nodes = [1]\<rparr>"
    by (simp add: validPerSpec_def)
  have eng: "Engine_ApplyConfChange registryDeps [addNode1] (addNode1\<lparr>cc_NodeID := 0\<rparr>) =
      (\<lparr>Nodes = [1]\<rparr>, [addNode1, addNode1\<lparr>cc_NodeID := 0\<rparr>])"
    by (simp add: registryDeps_def exEngineApplyConfChange_def)
  have ok: "applyConfChange registryDeps memberNode ?e4 \<lparr>Nodes = [1]\<rparr> =
     Ret (None, \<lparr>Nodes = [1, 4]\<rparr>,
          memberNode\<lparr>engine := [addNode1, addNode1\<lparr>cc_NodeID := 4, cc_Context := [9, 4]\<rparr>],
                      store := (newRegistry ''r'')
                                 \<lparr>Hives := [(4, \<lparr>hive_ID = 4, hive_Addr = ''d''\<rparr>)]\<rparr>\<rparr>)"
    by (simp add: applyConfChange_def registryDeps_def exUnmarshalConfChange_def
        validConfChange_def etcdraft_None_def exEngineApplyConfChange_def exDecodeNodeInfo_def
        notifyStore_def registry_ApplyConfChange_def registry_addHive_def exampleNode_def
        newRegistry_def)
  from invalid_conf_change_neutered [OF u1, of "\<lparr>Nodes = [1]\<rparr>" memberNode 3] inv eng
  have "applyConfChange registryDeps memberNode ?e1 \<lparr>Nodes = [1]\<rparr> =
          Ret (Some (IsDuplicate 1), \<lparr>Nodes = [1]\<rparr>,
               memberNode\<lparr>engine := [addNode1, addNode1\<lparr>cc_NodeID := 0\<rparr>]\<rparr>)"
    and "Node_apply_loop registryDeps [?e1] 3 \<lparr>Nodes = [1]\<rparr> memberNode =
          Ret (4, False, \<lparr>Nodes = [1]\<rparr>,
               memberNode\<lparr>engine := [addNode1, addNode1\<lparr>cc_NodeID := 0\<rparr>]\<rparr>)"
    and "Node_apply registryDeps [?e1] \<lparr>Nodes = [1]\<rparr> memberNode =
          Ret (4, False, \<lparr>Nodes = [1]\<rparr>,
               memberNode\<lparr>engine := [addNode1, addNode1\<lparr>cc_NodeID := 0\<rparr>]\<rparr>)"
    by (auto simp: exampleNode_def applyConfChange_def registryDeps_def
        exUnmarshalConfChange_def validConfChange_def etcdraft_None_def)
  moreover from invalid_conf_change_neutered [OF u4, of "\<lparr>Nodes = [1]\<rparr>" memberNode 3] ok
  have "validPerSpec (addNode1\<lparr>cc_NodeID := 4, cc_Context := [9, 4]\<rparr>) \<lparr>Nodes = [1]\<rparr>"
    by blast
  ultimately show ?thesis using inv ok by blast
qed

text \<open>
  C9, as the claim states it, fails: the newer \<^verbatim>\<open>Start\<close> hands a Ready to a goroutine
  and goes back to its \<^verbatim>\<open>select\<close>, where the ticker and the stop channel can be
  received from before the goroutine sends on \<^verbatim>\<open>adv\<close>. After a Ready is taken, a tick
  (\<^verbatim>\<open>n.node.Tick()\<close>) or a stop is processed while the batch is still in flight.
\<close>

theorem loop_ticks_while_ready_in_flight_counterexample:
  "loop_run loop_init [ReadyReceived, TickerFired] =
     Some \<lparr>ready_nil = True, in_flight = 1, returned = False, engine_calls = [CallTick]\<rparr> \<and>
   \<not> serialized False [ReadyReceived, TickerFired] \<and>
   loop_run loop_init [ReadyReceived, StopReceived] =
     Some \<lparr>ready_nil = True, in_flight = 1, returned = True, engine_calls = [CallStop]\<rparr> \<and>
   \<not> serialized False [ReadyReceived, StopReceived]"
  by (simp add: loop_init_def loop_step_def)

text \<open>
  C9, amended. In every run of the main loop at most one Ready batch is in flight at any
  time, and between taking a Ready and receiving its advance signal the loop takes no second
  Ready (ticks and a stop may be processed in between).
\<close>

theorem loop_one_ready_in_flight:
  assumes "loop_run loop_init (evs @ rest) = Some s"
  shows "(\<exists>s1. loop_run loop_init evs = Some s1 \<and> in_flight s1 \<le> 1) \<and>
         oneReadyAtATime False (evs @ rest)"
proof -
  have pre: "loop_run t (xs @ ys) = Some u \<Longrightarrow> \<exists>t1. loop_run t xs = Some t1" for t xs ys u
    by (induction xs arbitrary: t) (auto split: option.splits)
  from pre [OF assms] obtain s1 where s1: "loop_run loop_init evs = Some s1" ..
  have i0: "in_flight loop_init = (if ready_nil loop_init then 1 else 0)"
    by (simp add: loop_init_def)
  from loop_invariant [OF s1 i0] have "in_flight s1 \<le> 1" by (simp split: if_splits)
  moreover from loop_invariant [OF assms i0] have "oneReadyAtATime False (evs @ rest)"
    by (simp add: loop_init_def)
  ultimately show ?thesis using s1 by blast
qed

theorem loop_one_ready_in_flight_witness:
  "loop_run loop_init [ReadyReceived, TickerFired, AdvReceived, ReadyReceived] =
     Some \<lparr>ready_nil = True, in_flight = 1, returned = False,
           engine_calls = [CallTick, CallAdvance]\<rparr> \<and>
   loop_run loop_init [ReadyReceived, TickerFired] =
     Some \<lparr>ready_nil = True, in_flight = 1, returned = False, engine_calls = [CallTick]\<rparr> \<and>
   oneReadyAtATime False [ReadyReceived, TickerFired, AdvReceived, ReadyReceived] \<and>
   loop_run loop_init [ReadyReceived, ReadyReceived] = None"
  using loop_one_ready_in_flight
    [of "[ReadyReceived, TickerFired]" "[AdvReceived, ReadyReceived]"
        "\<lparr>ready_nil = True, in_flight = 1, returned = False,
           engine_calls = [CallTick, CallAdvance]\<rparr>"]
  by (simp add: loop_init_def loop_step_def)

end
